theory Spec2Isabelle
  imports Complex_Main "HOL-Library.Word"
begin

section \<open>JavaScript values\<close>

text \<open>
  A JavaScript string is the list of its UTF-16 code units, so that \<open>length\<close> is the
  program's \<open>.length\<close>. \<open>js\<close> embeds an ASCII literal.
\<close>

type_synonym jsstring = "nat list"

definition js :: "string \<Rightarrow> jsstring" where
  "js s = map of_char s"

text \<open>
  The values \<open>JSON.parse\<close> produces. A number is the exact value of the parsed double
  (\<open>JSON.parse\<close> yields no NaN); an object is the list of its own properties.
  \<open>undefined\<close> is \<open>None\<close> of \<open>json option\<close>.
\<close>

datatype json =
    JNull
  | JBool bool
  | JNum rat
  | JStr jsstring
  | JArr "json list"
  | JObj "(jsstring \<times> json) list"

datatype jstype = T_undefined | T_object | T_boolean | T_number | T_string

fun typeof :: "json option \<Rightarrow> jstype" where
  "typeof None = T_undefined"
| "typeof (Some JNull) = T_object"
| "typeof (Some (JBool b)) = T_boolean"
| "typeof (Some (JNum n)) = T_number"
| "typeof (Some (JStr s)) = T_string"
| "typeof (Some (JArr xs)) = T_object"
| "typeof (Some (JObj kvs)) = T_object"

text \<open>
  \<open>v.k\<close> on a value that is not null, for the property names this program reads
  (\<open>summary\<close>, \<open>comments\<close>, \<open>file\<close>, \<open>line\<close>, \<open>severity\<close>, \<open>message\<close>, \<open>data\<close>):
  arrays and primitives have none of them.
\<close>

fun getProp :: "json \<Rightarrow> jsstring \<Rightarrow> json option" where
  "getProp (JObj kvs) k = map_of kvs k"
| "getProp v k = None"


fun truthy :: "json option \<Rightarrow> bool" where
  "truthy None = False"
| "truthy (Some JNull) = False"
| "truthy (Some (JBool b)) = b"
| "truthy (Some (JNum n)) = (n \<noteq> 0)"
| "truthy (Some (JStr s)) = (s \<noteq> [])"
| "truthy (Some (JArr xs)) = True"
| "truthy (Some (JObj kvs)) = True"

text \<open>ECMAScript's WhiteSpace and LineTerminator code units, which \<open>trim\<close> strips.\<close>

definition isWhiteSpace :: "nat \<Rightarrow> bool" where
  "isWhiteSpace c =
     (c \<in> set [9, 10, 11, 12, 13, 32, 160, 5760, 8232, 8233, 8239, 8287, 12288, 65279]
      \<or> (8192 \<le> c \<and> c \<le> 8202))"

definition trim :: "jsstring \<Rightarrow> jsstring" where
  "trim s = rev (dropWhile isWhiteSpace (rev (dropWhile isWhiteSpace s)))"

definition isInteger :: "rat \<Rightarrow> bool" where
  "isInteger r = (rat_of_int \<lfloor>r\<rfloor> = r)"

text \<open>
  \<open>String(n)\<close> for a number. An integer of magnitude up to \<open>2^53\<close> is a double printed in
  plain decimal, with all its digits. Every other number is printed as
  \<open>Number.prototype.toString\<close> prints it, with a fraction, with the shortest digits that
  read back as the same double, or, from \<open>10^21\<close> on, with an exponent (\<open>1e+21\<close>): that
  printing is the parameter \<open>numStr\<close>.
\<close>

fun digits :: "nat \<Rightarrow> jsstring" where
  "digits n = (if n < 10 then [48 + n] else digits (n div 10) @ [48 + n mod 10])"

definition numberToString :: "(rat \<Rightarrow> jsstring) \<Rightarrow> rat \<Rightarrow> jsstring" where
  "numberToString numStr n =
     (if isInteger n \<and> \<bar>n\<bar> \<le> 9007199254740992 then
        (if n < 0 then 45 # digits (nat (- \<lfloor>n\<rfloor>)) else digits (nat \<lfloor>n\<rfloor>))
      else numStr n)"

fun join :: "jsstring \<Rightarrow> jsstring list \<Rightarrow> jsstring" where
  "join sep [] = []"
| "join sep [x] = x"
| "join sep (x # y # ys) = x @ sep @ join sep (y # ys)"

text \<open>The first error of a list of results, or all their values.\<close>

fun sequence :: "('e + 'a) list \<Rightarrow> 'e + 'a list" where
  "sequence [] = Inr []"
| "sequence (x # xs) =
     (case x of
        Inl e \<Rightarrow> Inl e
      | Inr v \<Rightarrow> (case sequence xs of Inl e \<Rightarrow> Inl e | Inr vs \<Rightarrow> Inr (v # vs)))"

text \<open>
  The conversion to a string that a template literal and \<open>Array.prototype.join\<close> apply
  to a value that \<open>JSON.parse\<close> produced. An array prints its elements joined by commas,
  a null element as the empty string. An object prints as \<open>[object Object]\<close>, unless it
  has an own property \<open>toString\<close>: that property is no function, and the conversion
  throws a TypeError, whose message is the \<open>Inl\<close>.
\<close>

fun toStringJs :: "(rat \<Rightarrow> jsstring) \<Rightarrow> json \<Rightarrow> jsstring + jsstring" where
  "toStringJs numStr JNull = Inr (js ''null'')"
| "toStringJs numStr (JBool b) = Inr (if b then js ''true'' else js ''false'')"
| "toStringJs numStr (JNum n) = Inr (numberToString numStr n)"
| "toStringJs numStr (JStr s) = Inr s"
| "toStringJs numStr (JArr xs) =
     (case sequence (map (\<lambda>x. if x = JNull then Inr [] else toStringJs numStr x) xs) of
        Inl e \<Rightarrow> Inl e
      | Inr parts \<Rightarrow> Inr (join (js '','') parts))"
| "toStringJs numStr (JObj kvs) =
     (if map_of kvs (js ''toString'') = None then Inr (js ''[object Object]'')
      else Inl (js ''Cannot convert object to primitive value''))"

text \<open>\<open>${v}\<close> in a template literal, for a value that may be undefined.\<close>

definition interpolate :: "(rat \<Rightarrow> jsstring) \<Rightarrow> json option \<Rightarrow> jsstring + jsstring" where
  "interpolate numStr v =
     (case v of None \<Rightarrow> Inr (js ''undefined'') | Some x \<Rightarrow> toStringJs numStr x)"

section \<open>The response envelope: types.ts of both services\<close>

datatype ErrorCode =
    VALIDATION_ERROR
  | AUTHENTICATION_ERROR
  | AUTHORIZATION_ERROR
  | NOT_FOUND
  | RATE_LIMIT_EXCEEDED
  | INTERNAL_ERROR
  | EXTERNAL_SERVICE_ERROR
  | TIMEOUT_ERROR

datatype ApiResponse =
    SuccessResponse json "jsstring option"
  | ErrorResponse ErrorCode jsstring "json option" "jsstring option"

definition createErrorResponse ::
  "ErrorCode \<Rightarrow> jsstring \<Rightarrow> json option \<Rightarrow> jsstring option \<Rightarrow> ApiResponse" where
  "createErrorResponse code message details requestId =
     ErrorResponse code message details requestId"

definition createSuccessResponse :: "json \<Rightarrow> jsstring option \<Rightarrow> ApiResponse" where
  "createSuccessResponse data requestId = SuccessResponse data requestId"

text \<open>\<open>res.status(n).json(b)\<close>.\<close>

record HttpResponse =
  status :: nat
  payload :: ApiResponse

section \<open>Review service: llmClient.ts\<close>

text \<open>
  In the sources the text of this module follows the types and the configuration in
  \<^verbatim>\<open>services/review-service/src/types.ts\<close>.
\<close>

record ReviewResponse =
  summary :: jsstring
  comments :: "json list"

definition userPrompt :: "jsstring \<Rightarrow> jsstring option \<Rightarrow> jsstring" where
  "userPrompt diff language =
     (case language of
        None \<Rightarrow> js ''Review this code diff:'' @ [10, 10] @ diff
      | Some l \<Rightarrow>
          if l \<noteq> [] then js ''Review this '' @ l @ js '' code diff:'' @ [10, 10] @ diff
          else js ''Review this code diff:'' @ [10, 10] @ diff)"

text \<open>
  What \<open>openai.chat.completions.create\<close> does: it throws an \<open>OpenAI.APIError\<close>, another
  \<open>Error\<close> or a value that is no \<open>Error\<close>, or it returns a completion, of which the
  program reads \<open>choices[0]?.message?.content\<close> (\<open>None\<close> when null or undefined).
\<close>

datatype openai_outcome =
    APIError jsstring
  | OtherError jsstring
  | NonError
  | Completion "jsstring option"

text \<open>The predicate given to \<open>response.comments.filter\<close>.\<close>

definition isReviewComment :: "json \<Rightarrow> bool" where
  "isReviewComment comment =
     (if typeof (Some comment) \<noteq> T_object \<or> comment = JNull then False
      else
        typeof (getProp comment (js ''file'')) = T_string
        \<and> typeof (getProp comment (js ''line'')) = T_number
        \<and> typeof (getProp comment (js ''severity'')) = T_string
        \<and> (case getProp comment (js ''severity'') of
              Some (JStr s) \<Rightarrow> s \<in> set [js ''info'', js ''warning'', js ''error'']
            | _ \<Rightarrow> False)
        \<and> typeof (getProp comment (js ''message'')) = T_string)"

text \<open>
  The body of \<open>generateCodeReview\<close> from the type guard on: what it does with the value
  \<open>JSON.parse\<close> returned. \<open>Inl\<close> is the message of the \<open>Error\<close> thrown.
\<close>

definition sanitizeResponse :: "json \<Rightarrow> jsstring + ReviewResponse" where
  "sanitizeResponse parsedResponse =
     (if typeof (Some parsedResponse) \<noteq> T_object \<or> parsedResponse = JNull
      then Inl (js ''OpenAI response is not a valid object'')
      else
        Inr \<lparr> summary =
                (case getProp parsedResponse (js ''summary'') of
                   Some (JStr s) \<Rightarrow> if trim s \<noteq> [] then trim s else js ''Code review completed''
                 | _ \<Rightarrow> js ''Code review completed''),
              comments =
                (case getProp parsedResponse (js ''comments'') of
                   Some (JArr entries) \<Rightarrow> filter isReviewComment entries
                 | _ \<Rightarrow> []) \<rparr>)"

text \<open>
  \<open>generateCodeReview\<close>, given \<open>JSON.parse\<close> (\<open>None\<close> where it throws a SyntaxError) and
  the backend's answer to the prompt. Every error thrown inside the \<open>try\<close> leaves the
  function as an \<open>Error\<close>, whose message is the \<open>Inl\<close>.
\<close>

definition generateCodeReview ::
  "(jsstring \<Rightarrow> json option) \<Rightarrow> (jsstring \<Rightarrow> openai_outcome) \<Rightarrow>
   jsstring \<Rightarrow> jsstring option \<Rightarrow> jsstring + ReviewResponse" where
  "generateCodeReview JSON_parse create diff language =
     (case create (userPrompt diff language) of
        APIError m \<Rightarrow> Inl (js ''OpenAI API error: '' @ m)
      | OtherError m \<Rightarrow> Inl m
      | NonError \<Rightarrow> Inl (js ''Unexpected error generating code review'')
      | Completion content \<Rightarrow>
          (case content of
             None \<Rightarrow> Inl (js ''No response content from OpenAI'')
           | Some c \<Rightarrow>
               if c = [] then Inl (js ''No response content from OpenAI'')
               else
                 (case JSON_parse c of
                    None \<Rightarrow> Inl (js ''Invalid JSON response from OpenAI'')
                  | Some parsedResponse \<Rightarrow> sanitizeResponse parsedResponse)))"

section \<open>Review service: middleware/validation.ts and routes/review.ts\<close>

record ReviewConfig =
  port :: int
  openaiApiKey :: jsstring
  maxDiffSize :: int
  maxRequestSize :: jsstring
  rateLimitWindowMs :: int
  rateLimitMax :: int

record ReviewRequest =
  repo :: jsstring
  prNumber :: rat
  diff :: jsstring
  language :: "jsstring option"

text \<open>A zod issue: its path and its message.\<close>

type_synonym issue = "jsstring list \<times> jsstring"

fun zodParsedType :: "json \<Rightarrow> jsstring" where
  "zodParsedType JNull = js ''null''"
| "zodParsedType (JBool b) = js ''boolean''"
| "zodParsedType (JNum n) = js ''number''"
| "zodParsedType (JStr s) = js ''string''"
| "zodParsedType (JArr xs) = js ''array''"
| "zodParsedType (JObj kvs) = js ''object''"

text \<open>zod's message for a value of the wrong type.\<close>

definition invalid_type :: "string \<Rightarrow> json option \<Rightarrow> jsstring" where
  "invalid_type expected v =
     (case v of
        None \<Rightarrow> js ''Required''
      | Some x \<Rightarrow> js ''Expected '' @ js expected @ js '', received '' @ zodParsedType x)"

definition repo_issues :: "json option \<Rightarrow> issue list" where
  "repo_issues v =
     (case v of
        Some (JStr s) \<Rightarrow>
          (if length s < 1 then [([js ''repo''], js ''Repository name is required'')] else [])
      | _ \<Rightarrow> [([js ''repo''], invalid_type ''string'' v)])"

definition prNumber_issues :: "json option \<Rightarrow> issue list" where
  "prNumber_issues v =
     (case v of
        Some (JNum n) \<Rightarrow>
          (if isInteger n then [] else [([js ''prNumber''], js ''Expected integer, received float'')])
          @ (if 0 < n then [] else [([js ''prNumber''], js ''PR number must be a positive integer'')])
      | _ \<Rightarrow> [([js ''prNumber''], invalid_type ''number'' v)])"

text \<open>
  The message of \<open>max\<close> is the template literal that prints \<open>config.maxDiffSize\<close>.
\<close>

definition diff_issues ::
  "(rat \<Rightarrow> jsstring) \<Rightarrow> ReviewConfig \<Rightarrow> json option \<Rightarrow> issue list" where
  "diff_issues numStr config v =
     (case v of
        Some (JStr s) \<Rightarrow>
          (if length s < 1 then [([js ''diff''], js ''Diff is required'')] else [])
          @ (if maxDiffSize config < int (length s)
             then [([js ''diff''],
                    js ''Diff exceeds maximum size of ''
                    @ numberToString numStr (rat_of_int (maxDiffSize config))
                    @ js '' characters'')]
             else [])
      | _ \<Rightarrow> [([js ''diff''], invalid_type ''string'' v)])"

definition language_issues :: "json option \<Rightarrow> issue list" where
  "language_issues v =
     (case v of
        None \<Rightarrow> []
      | Some (JStr s) \<Rightarrow> []
      | _ \<Rightarrow> [([js ''language''], invalid_type ''string'' v)])"

text \<open>\<open>ReviewRequestSchema.safeParse\<close>: the issues, or the validated data.\<close>

definition safeParse ::
  "(rat \<Rightarrow> jsstring) \<Rightarrow> ReviewConfig \<Rightarrow> json option \<Rightarrow> issue list + ReviewRequest" where
  "safeParse numStr config input =
     (case input of
        Some (JObj kvs) \<Rightarrow>
          (let issues = repo_issues (map_of kvs (js ''repo''))
                        @ prNumber_issues (map_of kvs (js ''prNumber''))
                        @ diff_issues numStr config (map_of kvs (js ''diff''))
                        @ language_issues (map_of kvs (js ''language''))
           in if issues \<noteq> [] then Inl issues
              else
                (case (map_of kvs (js ''repo''), map_of kvs (js ''prNumber''),
                       map_of kvs (js ''diff'')) of
                   (Some (JStr r), Some (JNum n), Some (JStr d)) \<Rightarrow>
                     Inr \<lparr> repo = r, prNumber = n, diff = d,
                           language =
                             (case map_of kvs (js ''language'') of
                                Some (JStr l) \<Rightarrow> Some l
                              | _ \<Rightarrow> None) \<rparr>
                 | _ \<Rightarrow> Inl issues))
      | _ \<Rightarrow> Inl [([], invalid_type ''object'' input)])"

definition errorEntry :: "issue \<Rightarrow> json" where
  "errorEntry err =
     JObj [(js ''field'', JStr (join (js ''.'') (fst err))), (js ''message'', JStr (snd err))]"

text \<open>\<open>validateReviewRequest\<close>: the 400 response, or \<open>next()\<close> with the validated body.\<close>

definition validateReviewRequest ::
  "(rat \<Rightarrow> jsstring) \<Rightarrow> ReviewConfig \<Rightarrow> jsstring option \<Rightarrow> json option \<Rightarrow>
   HttpResponse + ReviewRequest" where
  "validateReviewRequest numStr config reqId reqBody =
     (case safeParse numStr config reqBody of
        Inl errs \<Rightarrow>
          Inl \<lparr> status = 400,
                payload = createErrorResponse VALIDATION_ERROR (js ''Invalid request body'')
                            (Some (JObj [(js ''errors'', JArr (map errorEntry errs))])) reqId \<rparr>
      | Inr data \<Rightarrow> Inr data)"

definition reviewResponseJson :: "ReviewResponse \<Rightarrow> json" where
  "reviewResponseJson r =
     JObj [(js ''summary'', JStr (summary r)), (js ''comments'', JArr (comments r))]"

text \<open>
  The route \<open>POST /\<close>: the middleware, then the handler. \<open>llm_calls\<close> lists the prompts
  sent to the model backend. \<open>numStr\<close> is the printing of numbers that the schema's
  message uses.
\<close>

record ReviewOutcome =
  llm_calls :: "jsstring list"
  response :: HttpResponse

definition reviewRoute ::
  "(rat \<Rightarrow> jsstring) \<Rightarrow> ReviewConfig \<Rightarrow> (jsstring \<Rightarrow> json option) \<Rightarrow>
   (jsstring \<Rightarrow> openai_outcome) \<Rightarrow> jsstring option \<Rightarrow> json option \<Rightarrow> ReviewOutcome" where
  "reviewRoute numStr config JSON_parse create reqId reqBody =
     (case validateReviewRequest numStr config reqId reqBody of
        Inl rejected \<Rightarrow> \<lparr> llm_calls = [], response = rejected \<rparr>
      | Inr reviewRequest \<Rightarrow>
          \<lparr> llm_calls = [userPrompt (diff reviewRequest) (language reviewRequest)],
            response =
              (case generateCodeReview JSON_parse create (diff reviewRequest)
                      (language reviewRequest) of
                 Inr reviewResponse \<Rightarrow>
                   \<lparr> status = 200,
                     payload = createSuccessResponse (reviewResponseJson reviewResponse) reqId \<rparr>
               | Inl err \<Rightarrow>
                   \<lparr> status = 500,
                     payload = createErrorResponse EXTERNAL_SERVICE_ERROR
                                 (js ''Failed to generate code review'') None reqId \<rparr>) \<rparr>)"

section \<open>Webhook service: types.ts and config.ts\<close>

text \<open>
  \<open>Severity\<close> and \<open>ReviewComment\<close> are types of the compiler only: the cast
  \<open>comments as ReviewComment[]\<close> tests nothing when the program runs, so the comments the
  handler renders are the JSON values the review service sent, of type \<open>json\<close> here.
\<close>

record GitRef =
  ref :: jsstring
  sha :: jsstring

record Repository =
  name :: jsstring
  full_name :: jsstring
  html_url :: jsstring

record PullRequest =
  number :: rat
  title :: jsstring
  body :: jsstring
  head :: GitRef
  base :: GitRef

record GitHubWebhookPayload =
  action :: "jsstring option"
  repository :: "Repository option"
  pull_request :: "PullRequest option"

record WebhookConfig =
  port_wh :: int
  reviewServiceUrl :: jsstring
  githubToken :: jsstring
  githubWebhookSecret :: "jsstring option"
  maxRequestSize_wh :: jsstring
  rateLimitWindowMs_wh :: int
  rateLimitMax_wh :: int

text \<open>A header of the request: one string, or several.\<close>

datatype header = HString jsstring | HArray "jsstring list"

type_synonym byte = "8 word"

record WebhookRequest =
  reqId :: "jsstring option"
  rawBody :: "byte list option"
  x_hub_signature_256 :: "header option"
  x_github_event :: "header option"
  reqBody :: GitHubWebhookPayload

section \<open>Webhook service: middleware/verifyGitHubSignature.ts\<close>

text \<open>
  \<open>Buffer.from(s, 'utf8')\<close>: a surrogate pair is one code point of four bytes, a lone
  surrogate is replaced by U+FFFD.
\<close>

fun utf8 :: "jsstring \<Rightarrow> byte list" where
  "utf8 [] = []"
| "utf8 (c # cs) =
     (if c < 128 then of_nat c # utf8 cs
      else if c < 2048 then of_nat (192 + c div 64) # of_nat (128 + c mod 64) # utf8 cs
      else if 55296 \<le> c \<and> c < 56320 then
        (case cs of
           [] \<Rightarrow> [239, 191, 189]
         | d # ds \<Rightarrow>
             if 56320 \<le> d \<and> d < 57344 then
               (let cp = 65536 + (c - 55296) * 1024 + (d - 56320)
                in of_nat (240 + cp div 262144 mod 8) # of_nat (128 + cp div 4096 mod 64)
                   # of_nat (128 + cp div 64 mod 64) # of_nat (128 + cp mod 64) # utf8 ds)
             else 239 # 191 # 189 # utf8 cs)
      else if 56320 \<le> c \<and> c < 57344 then 239 # 191 # 189 # utf8 cs
      else of_nat (224 + c div 4096 mod 16) # of_nat (128 + c div 64 mod 64)
           # of_nat (128 + c mod 64) # utf8 cs)"

definition hexDigit :: "nat \<Rightarrow> nat" where
  "hexDigit n = (if n < 10 then 48 + n else 87 + n)"

text \<open>\<open>digest('hex')\<close>: two lowercase hexadecimal digits for each byte.\<close>

definition hex :: "byte list \<Rightarrow> jsstring" where
  "hex bs = concat (map (\<lambda>b. [hexDigit (unat b div 16), hexDigit (unat b mod 16)]) bs)"

text \<open>\<open>crypto.timingSafeEqual\<close> throws a RangeError (\<open>None\<close>) on buffers of different lengths.\<close>

definition timingSafeEqual :: "byte list \<Rightarrow> byte list \<Rightarrow> bool option" where
  "timingSafeEqual a b = (if length a \<noteq> length b then None else Some (a = b))"

datatype level = Debug | Info | Warn | Err

text \<open>What the middleware does besides answering: its log lines and its comparisons.\<close>

datatype effect = Log level jsstring | TimingSafeEqual "byte list" "byte list"

datatype verdict = Next | Responded HttpResponse | Thrown

definition unauthorized :: "jsstring \<Rightarrow> jsstring option \<Rightarrow> verdict" where
  "unauthorized msg rid =
     Responded \<lparr> status = 401, payload = createErrorResponse AUTHENTICATION_ERROR msg None rid \<rparr>"

text \<open>
  \<open>verifyGitHubSignature\<close>, given the HMAC-SHA256 of \<open>crypto\<close>
  (\<open>createHmac('sha256', key).update(data).digest()\<close>) as \<open>hmac\<close>.
\<close>

definition verifyGitHubSignature ::
  "(jsstring \<Rightarrow> byte list \<Rightarrow> byte list) \<Rightarrow> WebhookConfig \<Rightarrow> WebhookRequest \<Rightarrow>
   effect list \<times> verdict" where
  "verifyGitHubSignature hmac config req =
     (case githubWebhookSecret config of
        None \<Rightarrow>
          ([Log Warn (js ''GITHUB_WEBHOOK_SECRET is not configured, skipping signature verification'')],
           Next)
      | Some secret \<Rightarrow>
          if secret = [] then
            ([Log Warn (js ''GITHUB_WEBHOOK_SECRET is not configured, skipping signature verification'')],
             Next)
          else
            (case rawBody req of
               None \<Rightarrow>
                 ([Log Err (js ''Missing rawBody in request - signature verification requires raw body buffer'')],
                  unauthorized (js ''Missing request body for signature verification'') (reqId req))
             | Some raw \<Rightarrow>
                 (case x_hub_signature_256 req of
                    Some (HString signatureHeader) \<Rightarrow>
                      if signatureHeader = [] then
                        ([Log Err (js ''Missing or invalid x-hub-signature-256 header'')],
                         unauthorized (js ''Missing or invalid signature header'') (reqId req))
                      else
                        (let expected = js ''sha256='' @ hex (hmac secret raw);
                             expectedBuffer = utf8 expected;
                             receivedBuffer = utf8 signatureHeader
                         in if length expectedBuffer \<noteq> length receivedBuffer then
                              ([Log Debug (js ''Verifying GitHub webhook signature''),
                                Log Err (js ''Signature length mismatch'')],
                               unauthorized (js ''Invalid signature'') (reqId req))
                            else
                              (case timingSafeEqual expectedBuffer receivedBuffer of
                                 None \<Rightarrow>
                                   ([Log Debug (js ''Verifying GitHub webhook signature''),
                                     TimingSafeEqual expectedBuffer receivedBuffer],
                                    Thrown)
                               | Some isValid \<Rightarrow>
                                   if \<not> isValid then
                                     ([Log Debug (js ''Verifying GitHub webhook signature''),
                                       TimingSafeEqual expectedBuffer receivedBuffer,
                                       Log Err (js ''GitHub webhook signature verification failed'')],
                                      unauthorized (js ''Invalid signature'') (reqId req))
                                   else
                                     ([Log Debug (js ''Verifying GitHub webhook signature''),
                                       TimingSafeEqual expectedBuffer receivedBuffer,
                                       Log Debug (js ''GitHub webhook signature verified successfully'')],
                                      Next)))
                  | _ \<Rightarrow>
                      ([Log Err (js ''Missing or invalid x-hub-signature-256 header'')],
                       unauthorized (js ''Missing or invalid signature header'') (reqId req)))))"

section \<open>Webhook service: the calls it makes\<close>

text \<open>
  A call to the outside either throws an \<open>Error\<close> with a message, throws something that
  is no \<open>Error\<close>, or returns.
\<close>

datatype 'a attempt = Throws jsstring | ThrowsNonError | Returns 'a

text \<open>
  The calls a run makes, in order: \<open>octokit.rest.pulls.get\<close>, \<open>httpClient.get\<close> and
  \<open>httpClient.post\<close> with their timeouts, and \<open>octokit.rest.pulls.createReview\<close> with its
  event and body.
\<close>

datatype call =
    PullsGet jsstring jsstring rat
  | HttpGet jsstring nat
  | HttpPost jsstring json nat
  | CreateReview jsstring jsstring rat jsstring jsstring

text \<open>
  The environment of a run: the \<open>diff_url\<close> of the pull request, the data of the diff
  response, the data of the review service's response, the creation of the review, and
  the printing of the numbers that are not printed in plain decimal
  (\<open>Number.prototype.toString\<close>).
\<close>

record GitHubEnv =
  pulls_get :: "jsstring \<Rightarrow> jsstring \<Rightarrow> rat \<Rightarrow> jsstring option attempt"
  http_get :: "jsstring \<Rightarrow> json attempt"
  http_post :: "jsstring \<Rightarrow> json \<Rightarrow> json attempt"
  createReview :: "jsstring \<Rightarrow> jsstring \<Rightarrow> rat \<Rightarrow> jsstring \<Rightarrow> unit attempt"
  Number_toString :: "rat \<Rightarrow> jsstring"

section \<open>Webhook service: githubClient.ts\<close>

text \<open>\<open>PR #${pullNumber} in ${owner}/${repo}\<close>, which the error messages share.\<close>

definition prLabel :: "(rat \<Rightarrow> jsstring) \<Rightarrow> rat \<Rightarrow> jsstring \<Rightarrow> jsstring \<Rightarrow> jsstring" where
  "prLabel numStr pullNumber owner repoName =
     js ''PR #'' @ numberToString numStr pullNumber @ js '' in '' @ owner @ js ''/'' @ repoName"

text \<open>\<open>fetchPullRequestDiff\<close>: its calls, and the diff or the message of the \<open>Error\<close> thrown.\<close>

definition fetchPullRequestDiff ::
  "GitHubEnv \<Rightarrow> jsstring \<Rightarrow> jsstring \<Rightarrow> rat \<Rightarrow> call list \<times> (jsstring + jsstring)" where
  "fetchPullRequestDiff env owner repoName pullNumber =
     (let label = prLabel (Number_toString env) pullNumber owner repoName;
          failed = (\<lambda>m. Inl (js ''Failed to fetch diff for '' @ label @ js '': '' @ m));
          unexpected = Inl (js ''Unexpected error fetching PR diff for '' @ label);
          noUrl = js ''No diff_url found for '' @ label
      in case pulls_get env owner repoName pullNumber of
           Throws m \<Rightarrow> ([PullsGet owner repoName pullNumber], failed m)
         | ThrowsNonError \<Rightarrow> ([PullsGet owner repoName pullNumber], unexpected)
         | Returns diffUrl \<Rightarrow>
             (case diffUrl of
                None \<Rightarrow> ([PullsGet owner repoName pullNumber], failed noUrl)
              | Some url \<Rightarrow>
                  if url = [] then ([PullsGet owner repoName pullNumber], failed noUrl)
                  else
                    (case http_get env url of
                       Throws m \<Rightarrow>
                         ([PullsGet owner repoName pullNumber, HttpGet url 10000], failed m)
                     | ThrowsNonError \<Rightarrow>
                         ([PullsGet owner repoName pullNumber, HttpGet url 10000], unexpected)
                     | Returns d \<Rightarrow>
                         (case d of
                            JStr text \<Rightarrow>
                              ([PullsGet owner repoName pullNumber, HttpGet url 10000], Inr text)
                          | _ \<Rightarrow>
                              ([PullsGet owner repoName pullNumber, HttpGet url 10000],
                               failed (js ''Invalid diff response format''))))))"

section \<open>Webhook service: githubComments.ts\<close>

text \<open>
  The callback given to \<open>comments.map\<close>, on one element of the array: the line of the
  finding, or the message of the TypeError thrown. Reading \<open>c.severity\<close> throws when
  \<open>c\<close> is null; the four substitutions are converted in the order of the template.
\<close>

definition findingLine :: "(rat \<Rightarrow> jsstring) \<Rightarrow> json \<Rightarrow> jsstring + jsstring" where
  "findingLine numStr c =
     (if c = JNull then
        Inl (js ''Cannot read properties of null (reading '' @ [39] @ js ''severity'' @ [39]
             @ js '')'')
      else
        (case interpolate numStr (getProp c (js ''severity'')) of
           Inl e \<Rightarrow> Inl e
         | Inr sev \<Rightarrow>
             (case interpolate numStr (getProp c (js ''file'')) of
                Inl e \<Rightarrow> Inl e
              | Inr path \<Rightarrow>
                  (case interpolate numStr (getProp c (js ''line'')) of
                     Inl e \<Rightarrow> Inl e
                   | Inr printed \<Rightarrow>
                       (case interpolate numStr (getProp c (js ''message'')) of
                          Inl e \<Rightarrow> Inl e
                        | Inr msg \<Rightarrow>
                            Inr (js ''- (**'' @ sev @ js ''**) `'' @ path @ js '':'' @ printed
                                 @ js ''` '' @ [8211] @ js '' '' @ msg))))))"

definition findings :: "(rat \<Rightarrow> jsstring) \<Rightarrow> json list \<Rightarrow> jsstring + jsstring" where
  "findings numStr cs =
     (if length cs = 0 then Inr (js ''_No specific issues were detected. Nice work!_'')
      else
        (case sequence (map (findingLine numStr) cs) of
           Inl e \<Rightarrow> Inl e
         | Inr rendered \<Rightarrow> Inr (join [10] rendered)))"

text \<open>
  The body: the findings are rendered first, then the array of six elements is joined,
  which converts the summary (a null summary would join as the empty string).
\<close>

definition reviewBody :: "(rat \<Rightarrow> jsstring) \<Rightarrow> json \<Rightarrow> json list \<Rightarrow> jsstring + jsstring" where
  "reviewBody numStr summaryValue cs =
     (case findings numStr cs of
        Inl e \<Rightarrow> Inl e
      | Inr rendered \<Rightarrow>
          (case (if summaryValue = JNull then Inr [] else toStringJs numStr summaryValue) of
             Inl e \<Rightarrow> Inl e
           | Inr s \<Rightarrow>
               Inr (join [10]
                      [js ''### '' @ [55358, 56598] @ js '' AI Code Review Assistant'', [], s, [],
                       js ''#### Findings'', rendered])))"

text \<open>The \<open>try\<close> around \<open>createReview\<close>: the one call, and the \<open>Error\<close> rethrown.\<close>

definition publishReview ::
  "GitHubEnv \<Rightarrow> jsstring \<Rightarrow> jsstring \<Rightarrow> rat \<Rightarrow> jsstring \<Rightarrow> call list \<times> (jsstring + unit)" where
  "publishReview env owner repoName pullNumber text =
     ([CreateReview owner repoName pullNumber (js ''COMMENT'') text],
      (case createReview env owner repoName pullNumber text of
         Returns u \<Rightarrow> Inr ()
       | Throws m \<Rightarrow>
           Inl (js ''Failed to post review summary to ''
                @ prLabel (Number_toString env) pullNumber owner repoName @ js '': '' @ m)
       | ThrowsNonError \<Rightarrow>
           Inl (js ''Failed to post review summary to ''
                @ prLabel (Number_toString env) pullNumber owner repoName @ js '': ''
                @ js ''Unknown error'')))"

text \<open>
  \<open>postReviewSummary\<close>: its calls, and the message of the \<open>Error\<close> that leaves it. The
  body is built before the \<open>try\<close>, so a TypeError of the rendering leaves the function
  as it is, with no call made.
\<close>

definition postReviewSummary ::
  "GitHubEnv \<Rightarrow> jsstring \<Rightarrow> jsstring \<Rightarrow> rat \<Rightarrow> json \<Rightarrow> json list \<Rightarrow>
   call list \<times> (jsstring + unit)" where
  "postReviewSummary env owner repoName pullNumber summaryValue cs =
     (case reviewBody (Number_toString env) summaryValue cs of
        Inl e \<Rightarrow> ([], Inl e)
      | Inr text \<Rightarrow> publishReview env owner repoName pullNumber text)"

section \<open>Webhook service: routes/githubWebhook.ts\<close>

text \<open>
  In the sources the text of this module follows the logger in
  \<^verbatim>\<open>services/webhook-service/src/utils/logger.ts\<close>.
\<close>

fun js_split :: "nat \<Rightarrow> jsstring \<Rightarrow> jsstring list" where
  "js_split sep [] = [[]]"
| "js_split sep (c # cs) =
     (if c = sep then [] # js_split sep cs
      else (case js_split sep cs of [] \<Rightarrow> [[c]] | x # xs \<Rightarrow> (c # x) # xs))"

fun js_includes :: "jsstring \<Rightarrow> jsstring \<Rightarrow> bool" where
  "js_includes [] t = (t = [])"
| "js_includes (c # cs) t = (take (length t) (c # cs) = t \<or> js_includes cs t)"

text \<open>\<open>xs[i]\<close>, undefined out of range.\<close>

definition elemAt :: "'a list \<Rightarrow> nat \<Rightarrow> 'a option" where
  "elemAt xs i = (if i < length xs then Some (xs ! i) else None)"

definition isTimeout :: "jsstring \<Rightarrow> bool" where
  "isTimeout m = (js_includes m (js ''timeout'') \<or> js_includes m (js ''TIMEOUT''))"

text \<open>
  The outer \<open>catch\<close> of the handler, on an \<open>Error\<close> with a message or on a value that is
  no \<open>Error\<close>.
\<close>

definition webhookCatch :: "jsstring option \<Rightarrow> jsstring option \<Rightarrow> HttpResponse" where
  "webhookCatch err rid =
     (case err of
        Some m \<Rightarrow>
          \<lparr> status = 500,
            payload = createErrorResponse (if isTimeout m then TIMEOUT_ERROR else INTERNAL_ERROR)
                        (js ''Failed to process webhook: '' @ m) None rid \<rparr>
      | None \<Rightarrow>
          \<lparr> status = 500,
            payload = createErrorResponse INTERNAL_ERROR
                        (js ''Failed to process webhook: Unknown error'') None rid \<rparr>)"

record WebhookOutcome =
  calls :: "call list"
  reply :: HttpResponse

text \<open>
  The handler from the review service's response on. Reading \<open>data\<close> of a null
  response throws a TypeError, which the outer \<open>catch\<close> answers. The test
  \<open>!summary || !Array.isArray(comments)\<close> is evaluated left to right; every error that
  leaves \<open>postReviewSummary\<close> is an \<open>Error\<close>, which the inner \<open>catch\<close> answers.
\<close>

definition publishStage ::
  "GitHubEnv \<Rightarrow> jsstring option \<Rightarrow> jsstring \<Rightarrow> jsstring \<Rightarrow> rat \<Rightarrow> call list \<Rightarrow> json \<Rightarrow>
   WebhookOutcome" where
  "publishStage env rid owner repoName pullNumber made responseData =
     (if responseData = JNull then
        \<lparr> calls = made,
          reply = webhookCatch (Some (js ''Cannot read properties of null (reading ''
                                      @ [39] @ js ''data'' @ [39] @ js '')'')) rid \<rparr>
      else
        (let reviewData = (if truthy (getProp responseData (js ''data''))
                           then the (getProp responseData (js ''data'')) else responseData);
             invalid = \<lparr> calls = made,
                         reply = \<lparr> status = 500,
                                   payload = createErrorResponse EXTERNAL_SERVICE_ERROR
                                               (js ''Invalid response format from review service'')
                                               None rid \<rparr> \<rparr>
         in case getProp reviewData (js ''summary'') of
              None \<Rightarrow> invalid
            | Some summaryValue \<Rightarrow>
                if \<not> truthy (Some summaryValue) then invalid
                else
                  (case getProp reviewData (js ''comments'') of
                     Some (JArr entries) \<Rightarrow>
                       (case postReviewSummary env owner repoName pullNumber summaryValue entries of
                          (published, Inr u) \<Rightarrow>
                            \<lparr> calls = made @ published,
                              reply = \<lparr> status = 200,
                                        payload = createSuccessResponse
                                                    (JObj [(js ''forwardedToReviewService'', JBool True),
                                                           (js ''postedReviewToGitHub'', JBool True)])
                                                    rid \<rparr> \<rparr>
                        | (published, Inl m) \<Rightarrow>
                            \<lparr> calls = made @ published,
                              reply = \<lparr> status = 500,
                                        payload = createErrorResponse EXTERNAL_SERVICE_ERROR
                                                    (js ''Failed to post review to GitHub: '' @ m)
                                                    None rid \<rparr> \<rparr>)
                   | _ \<Rightarrow> invalid)))"

text \<open>The request body built for the review service.\<close>

definition reviewRequestBody :: "jsstring \<Rightarrow> rat \<Rightarrow> jsstring \<Rightarrow> json" where
  "reviewRequestBody fullName pullNumber d =
     JObj [(js ''repo'', JStr fullName), (js ''prNumber'', JNum pullNumber),
           (js ''diff'', JStr d), (js ''language'', JStr (js ''typescript''))]"

text \<open>The handler from the fetched diff on.\<close>

definition forwardStage ::
  "GitHubEnv \<Rightarrow> WebhookConfig \<Rightarrow> jsstring option \<Rightarrow> jsstring \<Rightarrow> jsstring \<Rightarrow> jsstring \<Rightarrow> rat \<Rightarrow>
   call list \<Rightarrow> jsstring \<Rightarrow> WebhookOutcome" where
  "forwardStage env config rid fullName owner repoName pullNumber made d =
     (if d = [] \<or> length (trim d) = 0 then
        \<lparr> calls = made,
          reply = \<lparr> status = 200,
                    payload = createSuccessResponse
                                (JObj [(js ''forwardedToReviewService'', JBool False),
                                       (js ''postedReviewToGitHub'', JBool False),
                                       (js ''reason'', JStr (js ''PR has no changes to review''))])
                                rid \<rparr> \<rparr>
      else
        (let requestBody = reviewRequestBody fullName pullNumber d;
             url = reviewServiceUrl config @ js ''/review''
         in case http_post env url requestBody of
              Throws m \<Rightarrow>
                \<lparr> calls = made @ [HttpPost url requestBody 120000],
                  reply = webhookCatch (Some m) rid \<rparr>
            | ThrowsNonError \<Rightarrow>
                \<lparr> calls = made @ [HttpPost url requestBody 120000],
                  reply = webhookCatch None rid \<rparr>
            | Returns responseData \<Rightarrow>
                publishStage env rid owner repoName pullNumber
                  (made @ [HttpPost url requestBody 120000]) responseData))"

definition actionable :: "WebhookRequest \<Rightarrow> bool" where
  "actionable req =
     (x_github_event req = Some (HString (js ''pull_request''))
      \<and> (case action (reqBody req) of
            None \<Rightarrow> False
          | Some a \<Rightarrow> a \<noteq> [] \<and> a \<in> set [js ''opened'', js ''reopened'', js ''synchronize'']))"

definition githubWebhook :: "GitHubEnv \<Rightarrow> WebhookConfig \<Rightarrow> WebhookRequest \<Rightarrow> WebhookOutcome" where
  "githubWebhook env config req =
     (if actionable req then
        (let fullName = map_option full_name (repository (reqBody req));
             pullNumber = map_option number (pull_request (reqBody req));
             missing = \<lparr> calls = [],
                         reply = \<lparr> status = 400,
                                   payload = createErrorResponse VALIDATION_ERROR
                                               (js ''Missing repo full_name or PR number'') None
                                               (reqId req) \<rparr> \<rparr>
         in case (fullName, pullNumber) of
              (Some fn, Some pn) \<Rightarrow>
                if fn = [] \<or> pn = 0 then missing
                else
                  (case (elemAt (js_split 47 fn) 0, elemAt (js_split 47 fn) 1) of
                     (Some owner, Some repoName) \<Rightarrow>
                       if owner = [] \<or> repoName = [] then
                         \<lparr> calls = [],
                           reply = \<lparr> status = 400,
                                     payload = createErrorResponse VALIDATION_ERROR
                                                 (js ''Invalid repository full_name format'')
                                                 (Some (JObj [(js ''fullName'', JStr fn)]))
                                                 (reqId req) \<rparr> \<rparr>
                       else
                         (case fetchPullRequestDiff env owner repoName pn of
                            (fetched, Inl m) \<Rightarrow>
                              \<lparr> calls = fetched, reply = webhookCatch (Some m) (reqId req) \<rparr>
                          | (fetched, Inr d) \<Rightarrow>
                              forwardStage env config (reqId req) fn owner repoName pn fetched d)
                   | _ \<Rightarrow>
                       \<lparr> calls = [],
                         reply = \<lparr> status = 400,
                                   payload = createErrorResponse VALIDATION_ERROR
                                               (js ''Invalid repository full_name format'')
                                               (Some (JObj [(js ''fullName'', JStr fn)]))
                                               (reqId req) \<rparr> \<rparr>)
            | _ \<Rightarrow> missing)
      else
        \<lparr> calls = [],
          reply = \<lparr> status = 200,
                    payload = createSuccessResponse (JObj [(js ''ignored'', JBool True)])
                                (reqId req) \<rparr> \<rparr>)"

text \<open>
  The route \<open>POST /webhook\<close>: \<open>verifyGitHubSignature\<close>, then the handler. An exception of
  the middleware reaches the error handler of the application.
\<close>

definition webhookRoute ::
  "(jsstring \<Rightarrow> byte list \<Rightarrow> byte list) \<Rightarrow> GitHubEnv \<Rightarrow> WebhookConfig \<Rightarrow> WebhookRequest \<Rightarrow>
   WebhookOutcome" where
  "webhookRoute hmac env config req =
     (case snd (verifyGitHubSignature hmac config req) of
        Next \<Rightarrow> githubWebhook env config req
      | Responded r \<Rightarrow> \<lparr> calls = [], reply = r \<rparr>
      | Thrown \<Rightarrow>
          \<lparr> calls = [],
            reply = \<lparr> status = 500,
                      payload = ErrorResponse INTERNAL_ERROR (js ''An internal error occurred'')
                                  None (reqId req) \<rparr> \<rparr>)"

section \<open>The specification's wording of the sanitizer\<close>

text \<open>
  A finding as the specification describes it: an object with a string file path, a
  numeric line, a severity that is one of the three recognised strings, and a string
  message.
\<close>

definition spec_well_formed_finding :: "json \<Rightarrow> bool" where
  "spec_well_formed_finding entry =
     (case entry of
        JObj props \<Rightarrow>
          (case map_of props (js ''file'') of Some (JStr f) \<Rightarrow> True | _ \<Rightarrow> False)
          \<and> (case map_of props (js ''line'') of Some (JNum n) \<Rightarrow> True | _ \<Rightarrow> False)
          \<and> (case map_of props (js ''severity'') of
                Some (JStr s) \<Rightarrow> s = js ''info'' \<or> s = js ''warning'' \<or> s = js ''error''
              | _ \<Rightarrow> False)
          \<and> (case map_of props (js ''message'') of Some (JStr m) \<Rightarrow> True | _ \<Rightarrow> False)
      | _ \<Rightarrow> False)"

text \<open>The findings of a reply: empty unless \<open>comments\<close> is an array, else its well-formed entries.\<close>

definition spec_findings :: "json option \<Rightarrow> json list" where
  "spec_findings v =
     (case v of Some (JArr entries) \<Rightarrow> filter spec_well_formed_finding entries | _ \<Rightarrow> [])"

text \<open>The summary of a reply: the trimmed string when it is not blank, else the fallback.\<close>

definition spec_summary :: "json option \<Rightarrow> jsstring" where
  "spec_summary v =
     (case v of
        Some (JStr s) \<Rightarrow> if trim s = [] then js ''Code review completed'' else trim s
      | _ \<Rightarrow> js ''Code review completed'')"

text \<open>The JSON values that are neither an object nor an array.\<close>

definition jsonScalar :: "json \<Rightarrow> bool" where
  "jsonScalar v =
     (case v of JNull \<Rightarrow> True | JBool b \<Rightarrow> True | JNum n \<Rightarrow> True | JStr s \<Rightarrow> True
      | JArr xs \<Rightarrow> False | JObj kvs \<Rightarrow> False)"

text \<open>The answer of the review route when the review could not be generated.\<close>

definition generationFailed :: "jsstring option \<Rightarrow> HttpResponse" where
  "generationFailed rid =
     \<lparr> status = 500,
       payload = ErrorResponse EXTERNAL_SERVICE_ERROR (js ''Failed to generate code review'') None rid \<rparr>"

section \<open>Notions used to state the properties\<close>

text \<open>The calls of the diff-fetch stage, and those of the publication stage.\<close>

fun isDiffFetch :: "call \<Rightarrow> bool" where
  "isDiffFetch (PullsGet owner repoName pullNumber) = True"
| "isDiffFetch (HttpGet url t) = True"
| "isDiffFetch c = False"

fun isPublication :: "call \<Rightarrow> bool" where
  "isPublication (CreateReview owner repoName pullNumber event text) = True"
| "isPublication c = False"

text \<open>The answer to a webhook that is not acted upon.\<close>

definition ignoredReply :: "jsstring option \<Rightarrow> HttpResponse" where
  "ignoredReply rid =
     \<lparr> status = 200, payload = SuccessResponse (JObj [(js ''ignored'', JBool True)]) rid \<rparr>"

text \<open>
  The identity the handler takes from an actionable webhook: the full name, its first two
  segments as owner and repository, and the pull-request number; \<open>None\<close> where the
  handler answers 400.
\<close>

definition pullRequestIdentity ::
  "WebhookRequest \<Rightarrow> (jsstring \<times> jsstring \<times> jsstring \<times> rat) option" where
  "pullRequestIdentity req =
     (case (repository (reqBody req), pull_request (reqBody req)) of
        (Some r, Some p) \<Rightarrow>
          if full_name r = [] \<or> number p = 0 then None
          else
            (case js_split 47 (full_name r) of
               owner # repoName # rest \<Rightarrow>
                 if owner = [] \<or> repoName = [] then None
                 else Some (full_name r, owner, repoName, number p)
             | _ \<Rightarrow> None)
      | _ \<Rightarrow> None)"


text \<open>A diff of white space only (or empty).\<close>

definition blank :: "jsstring \<Rightarrow> bool" where
  "blank d = (\<forall>c\<in>set d. isWhiteSpace c)"



text \<open>
  A string of decimal digits that denotes the number \<open>n\<close>: it is not empty, each of its
  characters is a digit, and its value is \<open>n\<close>.
\<close>

fun decimalValue :: "jsstring \<Rightarrow> nat" where
  "decimalValue [] = 0"
| "decimalValue (c # cs) = (c - 48) * 10 ^ length cs + decimalValue cs"

definition decimalOf :: "jsstring \<Rightarrow> nat \<Rightarrow> bool" where
  "decimalOf s n = (s \<noteq> [] \<and> list_all (\<lambda>c. 48 \<le> c \<and> c \<le> 57) s \<and> decimalValue s = n)"

text \<open>The string, and the number, that a property of a finding holds.\<close>

definition stringValue :: "json option \<Rightarrow> jsstring" where
  "stringValue v = (case v of Some (JStr s) \<Rightarrow> s | _ \<Rightarrow> [])"

definition numberValue :: "json option \<Rightarrow> rat" where
  "numberValue v = (case v of Some (JNum n) \<Rightarrow> n | _ \<Rightarrow> 0)"

text \<open>The value the verifier compares the signature header with.\<close>

definition expectedSignature ::
  "(jsstring \<Rightarrow> byte list \<Rightarrow> byte list) \<Rightarrow> jsstring \<Rightarrow> byte list \<Rightarrow> jsstring" where
  "expectedSignature hmac secret raw = js ''sha256='' @ hex (hmac secret raw)"

section \<open>Example inputs\<close>

text \<open>A model backend that answers every prompt with the same text.\<close>

definition answering :: "jsstring \<Rightarrow> jsstring \<Rightarrow> openai_outcome" where
  "answering content prompt = Completion (Some content)"

definition quoted :: "string \<Rightarrow> jsstring" where
  "quoted s = [34] @ js s @ [34]"

text \<open>
  A reply with one well-formed finding, one finding with an unknown severity and one
  entry that is no object, as text and as the value \<open>JSON.parse\<close> gives for it.
\<close>

definition exampleReplyText :: jsstring where
  "exampleReplyText =
     js ''{'' @ quoted ''summary'' @ js '':'' @ quoted '' Looks fine '' @ js '','' @ quoted ''comments''
     @ js '':[{'' @ quoted ''file'' @ js '':'' @ quoted ''a.ts'' @ js '','' @ quoted ''line'' @ js '':3,''
     @ quoted ''severity'' @ js '':'' @ quoted ''warning'' @ js '','' @ quoted ''message'' @ js '':''
     @ quoted ''unused var'' @ js ''},{'' @ quoted ''file'' @ js '':'' @ quoted ''b.ts'' @ js '',''
     @ quoted ''line'' @ js '':4,'' @ quoted ''severity'' @ js '':'' @ quoted ''fatal'' @ js '',''
     @ quoted ''message'' @ js '':'' @ quoted ''m'' @ js ''},7]}''"

definition exampleFinding :: json where
  "exampleFinding =
     JObj [(js ''file'', JStr (js ''a.ts'')), (js ''line'', JNum 3),
           (js ''severity'', JStr (js ''warning'')), (js ''message'', JStr (js ''unused var''))]"

definition unknownSeverityFinding :: json where
  "unknownSeverityFinding =
     JObj [(js ''file'', JStr (js ''b.ts'')), (js ''line'', JNum 4),
           (js ''severity'', JStr (js ''fatal'')), (js ''message'', JStr (js ''m''))]"

definition exampleReplyProps :: "(jsstring \<times> json) list" where
  "exampleReplyProps =
     [(js ''summary'', JStr (js '' Looks fine '')),
      (js ''comments'', JArr [exampleFinding, unknownSeverityFinding, JNum 7])]"

text \<open>\<open>JSON.parse\<close> on the texts of the examples; every other text counts as unparseable.\<close>

definition exampleParse :: "jsstring \<Rightarrow> json option" where
  "exampleParse content =
     (if content = exampleReplyText then Some (JObj exampleReplyProps)
      else if content = js ''[]'' then Some (JArr [])
      else if content = js ''null'' then Some JNull
      else None)"

definition fractionalFinding :: json where
  "fractionalFinding =
     JObj [(js ''file'', JStr (js ''a.ts'')), (js ''line'', JNum (7 / 2)),
           (js ''severity'', JStr (js ''info'')), (js ''message'', JStr (js ''m''))]"

text \<open>
  The examples print no number but integers of small magnitude, so that the printing
  of the other numbers is never consulted in them.
\<close>

definition exampleNumberToString :: "rat \<Rightarrow> jsstring" where
  "exampleNumberToString n = []"

definition exampleReviewConfig :: ReviewConfig where
  "exampleReviewConfig =
     \<lparr> port = 4002, openaiApiKey = js ''key'', maxDiffSize = 1000000, maxRequestSize = js ''10mb'',
       rateLimitWindowMs = 900000, rateLimitMax = 100 \<rparr>"

definition exampleRequestBody :: json where
  "exampleRequestBody =
     JObj [(js ''repo'', JStr (js ''acme/widgets'')), (js ''prNumber'', JNum 42),
           (js ''diff'', JStr (js ''+x'')), (js ''language'', JStr (js ''typescript''))]"

definition exampleRequest :: ReviewRequest where
  "exampleRequest =
     \<lparr> repo = js ''acme/widgets'', prNumber = 42, diff = js ''+x'',
       language = Some (js ''typescript'') \<rparr>"

text \<open>
  A toy keyed digest that stands for HMAC-SHA256 in the examples: the bytes of the key,
  then the data.
\<close>

definition exampleHmac :: "jsstring \<Rightarrow> byte list \<Rightarrow> byte list" where
  "exampleHmac key data = utf8 key @ data"

definition exampleWebhookConfig :: WebhookConfig where
  "exampleWebhookConfig =
     \<lparr> port_wh = 4001, reviewServiceUrl = js ''http://localhost:4002'', githubToken = js ''t'',
       githubWebhookSecret = Some (js ''s''), maxRequestSize_wh = js ''10mb'',
       rateLimitWindowMs_wh = 900000, rateLimitMax_wh = 100 \<rparr>"

definition examplePayload :: "jsstring \<Rightarrow> jsstring \<Rightarrow> GitHubWebhookPayload" where
  "examplePayload act fullName =
     \<lparr> action = Some act,
       repository = Some \<lparr> name = js ''widgets'', full_name = fullName,
                            html_url = js ''https://github.com/acme/widgets'' \<rparr>,
       pull_request = Some \<lparr> number = 42, title = js ''t'', body = js ''b'',
                              head = \<lparr> ref = js ''feature'', sha = js ''1'' \<rparr>,
                              base = \<lparr> ref = js ''main'', sha = js ''0'' \<rparr> \<rparr> \<rparr>"

text \<open>
  A webhook with a body of two bytes, signed with the key \<open>s\<close> under the toy digest; the
  model does not relate the raw body to the parsed payload.
\<close>

definition exampleWebhook :: "jsstring \<Rightarrow> jsstring \<Rightarrow> WebhookRequest" where
  "exampleWebhook act fullName =
     \<lparr> reqId = Some (js ''r1''), rawBody = Some [123, 125],
       x_hub_signature_256 = Some (HString (js ''sha256=737b7d'')),
       x_github_event = Some (HString (js ''pull_request'')),
       reqBody = examplePayload act fullName \<rparr>"

definition exampleReviewData :: json where
  "exampleReviewData =
     JObj [(js ''success'', JBool True),
           (js ''data'',
            JObj [(js ''summary'', JStr (js ''Looks fine'')),
                  (js ''comments'', JArr [exampleFinding])])]"

text \<open>The body of the review that publishes the example review data.\<close>

definition exampleReviewBody :: jsstring where
  "exampleReviewBody =
     js ''### '' @ [55358, 56598] @ js '' AI Code Review Assistant'' @ [10, 10]
     @ js ''Looks fine'' @ [10, 10] @ js ''#### Findings'' @ [10]
     @ js ''- (**warning**) `a.ts:3` '' @ [8211] @ js '' unused var''"

text \<open>
  An environment in which every call succeeds, three in which one call fails, and two
  in which the review service answers with an envelope that cannot be published: one
  whose only comment is null, one without comments.
\<close>

definition exampleEnv :: GitHubEnv where
  "exampleEnv =
     \<lparr> pulls_get = (\<lambda>owner repoName pullNumber.
                      Returns (Some (js ''https://github.com/acme/widgets/pull/42.diff''))),
       http_get = (\<lambda>url. Returns (JStr (js ''+x''))),
       http_post = (\<lambda>url b. Returns exampleReviewData),
       createReview = (\<lambda>owner repoName pullNumber text. Returns ()),
       Number_toString = exampleNumberToString \<rparr>"










text \<open>A finding whose message has two lines.\<close>

definition multilineFinding :: json where
  "multilineFinding =
     JObj [(js ''file'', JStr (js ''a.ts'')), (js ''line'', JNum 3),
           (js ''severity'', JStr (js ''info'')),
           (js ''message'', JStr (js ''x'' @ [10] @ js ''- y''))]"

section \<open>Properties of the review service\<close>

subsection \<open>String literals\<close>

lemma js_eq_iff [simp]: "js a = js b \<longleftrightarrow> a = b"
proof -
  have "inj (of_char :: char \<Rightarrow> nat)"
    by (rule injI) simp
  then show ?thesis
    by (simp add: js_def inj_map_eq_map)
qed

lemma js_Nil_iff [simp]: "js a = [] \<longleftrightarrow> a = []"
  by (simp add: js_def)

lemma js_append: "js (a @ b) = js a @ js b"
  by (simp add: js_def)

subsection \<open>JavaScript values\<close>

lemma typeof_string_iff: "typeof v = T_string \<longleftrightarrow> (\<exists>s. v = Some (JStr s))"
  by (cases v rule: typeof.cases) auto

lemma typeof_number_iff: "typeof v = T_number \<longleftrightarrow> (\<exists>n. v = Some (JNum n))"
  by (cases v rule: typeof.cases) auto

lemma isInteger_of_int [simp]: "isInteger (rat_of_int i)"
  by (simp add: isInteger_def)

lemma isInteger_numeral [simp]: "isInteger (numeral k)"
  using isInteger_of_int [of "numeral k"] by simp

lemma floor_7_2: "\<lfloor>7 / 2 :: rat\<rfloor> = 3"
  by (rule floor_unique) simp_all

lemma numberToString_nat:
  "n \<le> 9007199254740992 \<Longrightarrow> numberToString numStr (of_nat n) = digits n"
proof -
  assume "n \<le> 9007199254740992"
  then have "(of_nat n :: rat) \<le> of_nat 9007199254740992"
    by (simp only: of_nat_le_iff)
  then have "\<bar>of_nat n :: rat\<bar> \<le> 9007199254740992" by simp
  moreover have "isInteger (of_nat n)"
    using isInteger_of_int [of "int n"] by simp
  ultimately show ?thesis
    by (simp add: numberToString_def del: digits.simps)
qed

lemma numberToString_numeral:
  "numeral k \<le> (9007199254740992 :: nat) \<Longrightarrow>
   numberToString numStr (numeral k) = digits (numeral k)"
  using numberToString_nat [of "numeral k" numStr] by simp


lemma print_3: "numberToString numStr 3 = js ''3''"
  by (simp add: numberToString_numeral js_def)


subsection \<open>Conversions to a string\<close>

lemma sequence_map_Inr: "\<forall>x\<in>set xs. f x = Inr (g x) \<Longrightarrow> sequence (map f xs) = Inr (map g xs)"
  by (induction xs) simp_all


lemma not_isInteger_7_2: "\<not> isInteger (7 / 2)"
  by (simp add: isInteger_def floor_7_2)

subsection \<open>The sanitizer\<close>

text \<open>The predicate of the filter is the specification's well-formed finding.\<close>

lemma isReviewComment_spec: "isReviewComment e = spec_well_formed_finding e"
proof (cases e)
  case (JObj props)
  show ?thesis
    unfolding JObj isReviewComment_def spec_well_formed_finding_def
    by (auto simp: typeof_string_iff typeof_number_iff split: option.splits json.splits)
qed (simp_all add: isReviewComment_def spec_well_formed_finding_def)

lemma sanitize_object:
  "sanitizeResponse (JObj props) =
     Inr \<lparr> summary = spec_summary (map_of props (js ''summary'')),
           comments = spec_findings (map_of props (js ''comments'')) \<rparr>"
proof -
  have f: "filter isReviewComment = filter spec_well_formed_finding"
    by (simp add: isReviewComment_spec [abs_def])
  show ?thesis
    unfolding sanitizeResponse_def spec_summary_def spec_findings_def
    by (simp add: f split: option.splits json.splits)
qed

lemma sanitize_array:
  "sanitizeResponse (JArr xs) = Inr \<lparr> summary = js ''Code review completed'', comments = [] \<rparr>"
  by (simp add: sanitizeResponse_def)

lemma sanitize_fails_iff: "(\<exists>m. sanitizeResponse v = Inl m) \<longleftrightarrow> jsonScalar v"
  by (cases v) (simp_all add: sanitizeResponse_def jsonScalar_def)

lemma sanitize_comments_valid:
  "sanitizeResponse v = Inr r \<Longrightarrow> e \<in> set (comments r) \<Longrightarrow> isReviewComment e"
  by (auto simp: sanitizeResponse_def split: if_splits option.splits json.splits)

lemma generate_completion:
  "create (userPrompt d l) = Completion (Some content) \<Longrightarrow>
   generateCodeReview JSON_parse create d l =
     (if content = [] then Inl (js ''No response content from OpenAI'')
      else case JSON_parse content of
             None \<Rightarrow> Inl (js ''Invalid JSON response from OpenAI'')
           | Some v \<Rightarrow> sanitizeResponse v)"
  by (simp add: generateCodeReview_def)

lemma generate_sanitized:
  "generateCodeReview JSON_parse create d l = Inr r \<Longrightarrow>
   \<exists>content v. create (userPrompt d l) = Completion (Some content) \<and> content \<noteq> []
      \<and> JSON_parse content = Some v \<and> sanitizeResponse v = Inr r"
  by (auto simp: generateCodeReview_def split: openai_outcome.splits option.splits if_splits)

subsection \<open>The examples, evaluated\<close>

lemma example_text_nonempty: "exampleReplyText \<noteq> []"
  by (simp add: exampleReplyText_def js_def)

lemma example_parse: "exampleParse exampleReplyText = Some (JObj exampleReplyProps)"
  by (simp add: exampleParse_def)

lemma example_parse_array: "exampleParse (js ''[]'') = Some (JArr [])"
  by (simp add: exampleParse_def exampleReplyText_def quoted_def js_def)

lemma example_parse_null: "exampleParse (js ''null'') = Some JNull"
  by (simp add: exampleParse_def exampleReplyText_def quoted_def js_def)

lemma example_summary:
  "spec_summary (map_of exampleReplyProps (js ''summary'')) = js ''Looks fine''"
  by (simp add: exampleReplyProps_def spec_summary_def trim_def isWhiteSpace_def js_def)

lemma example_findings:
  "spec_findings (map_of exampleReplyProps (js ''comments'')) = [exampleFinding]"
proof -
  have 1: "spec_well_formed_finding exampleFinding"
    by (simp add: spec_well_formed_finding_def exampleFinding_def js_def)
  have 2: "\<not> spec_well_formed_finding unknownSeverityFinding"
    by (simp add: spec_well_formed_finding_def unknownSeverityFinding_def js_def)
  have 3: "\<not> spec_well_formed_finding (JNum 7)"
    by (simp add: spec_well_formed_finding_def)
  have 4: "map_of exampleReplyProps (js ''comments'')
           = Some (JArr [exampleFinding, unknownSeverityFinding, JNum 7])"
    by (simp add: exampleReplyProps_def js_def)
  show ?thesis
    unfolding 4 by (simp add: spec_findings_def 1 2 3)
qed

lemma example_generate:
  "generateCodeReview exampleParse (answering exampleReplyText) (js ''+x'') None =
     Inr \<lparr> summary = js ''Looks fine'', comments = [exampleFinding] \<rparr>"
  by (simp add: generate_completion [where content = exampleReplyText] answering_def
      example_text_nonempty example_parse sanitize_object example_summary example_findings)

lemma example_valid:
  "validateReviewRequest exampleNumberToString exampleReviewConfig None (Some exampleRequestBody) = Inr exampleRequest"
  by (simp add: validateReviewRequest_def safeParse_def exampleReviewConfig_def
      exampleRequestBody_def exampleRequest_def repo_issues_def prNumber_issues_def
      diff_issues_def language_issues_def js_def)

lemma route_valid:
  "validateReviewRequest numStr config rid b = Inr rq \<Longrightarrow>
   response (reviewRoute numStr config JSON_parse create rid b) =
     (case generateCodeReview JSON_parse create (diff rq) (language rq) of
        Inr reviewResponse \<Rightarrow>
          \<lparr> status = 200, payload = createSuccessResponse (reviewResponseJson reviewResponse) rid \<rparr>
      | Inl err \<Rightarrow> generationFailed rid)"
  by (simp add: reviewRoute_def generationFailed_def createErrorResponse_def split: sum.splits)

subsection \<open>Claim C1\<close>

text \<open>
  C1. When the model's reply parses to a JSON object, \<open>generateCodeReview\<close> returns a
  result and does not fail. Its comments are empty if the reply's \<open>comments\<close> is not an
  array; otherwise they are exactly the entries that are objects with a string \<open>file\<close>, a
  numeric \<open>line\<close>, a \<open>severity\<close> among \<open>info\<close>, \<open>warning\<close>, \<open>error\<close> and a string
  \<open>message\<close>, in their original order. The summary is a function of the reply's
  \<open>summary\<close> alone, so no entry of \<open>comments\<close> alters it.
\<close>

theorem sanitizer_keeps_well_formed_findings:
  assumes "create (userPrompt d l) = Completion (Some content)"
      and "content \<noteq> []"
      and "JSON_parse content = Some (JObj props)"
  shows "generateCodeReview JSON_parse create d l =
           Inr \<lparr> summary = spec_summary (map_of props (js ''summary'')),
                 comments = spec_findings (map_of props (js ''comments'')) \<rparr>"
  using assms by (simp add: generateCodeReview_def sanitize_object)

theorem sanitizer_keeps_well_formed_findings_witness:
  "generateCodeReview exampleParse (answering exampleReplyText) (js ''+x'') None =
     Inr \<lparr> summary = js ''Looks fine'', comments = [exampleFinding] \<rparr>"
proof -
  have 1: "answering exampleReplyText (userPrompt (js ''+x'') None)
           = Completion (Some exampleReplyText)"
    by (simp add: answering_def)
  show ?thesis
    using sanitizer_keeps_well_formed_findings
            [where create = "answering exampleReplyText" and JSON_parse = exampleParse,
             OF 1 example_text_nonempty example_parse]
    by (simp add: example_summary example_findings)
qed

subsection \<open>Claim C6\<close>

text \<open>
  C6, as stated, asks that a finding whose line is not an integer is dropped. The filter
  tests \<open>typeof c.line === 'number'\<close> only: the finding with line 3.5 below is kept.
\<close>

theorem fractional_line_retained:
  "sanitizeResponse (JObj [(js ''comments'', JArr [fractionalFinding])])
     = Inr \<lparr> summary = js ''Code review completed'', comments = [fractionalFinding] \<rparr>
   \<and> getProp fractionalFinding (js ''line'') = Some (JNum (7 / 2))
   \<and> \<not> isInteger (7 / 2)"
proof -
  have 1: "spec_well_formed_finding fractionalFinding"
    by (simp add: spec_well_formed_finding_def fractionalFinding_def js_def)
  have 2: "getProp fractionalFinding (js ''line'') = Some (JNum (7 / 2))"
    by (simp add: fractionalFinding_def js_def)
  have 3: "sanitizeResponse (JObj [(js ''comments'', JArr [fractionalFinding])])
     = Inr \<lparr> summary = js ''Code review completed'', comments = [fractionalFinding] \<rparr>"
    unfolding sanitize_object by (simp add: spec_summary_def spec_findings_def 1 js_def)
  show ?thesis using 2 3 not_isInteger_7_2 by simp
qed

text \<open>
  C6, amended. Every finding retained in a returned result has a numeric line: the
  filter drops each entry whose \<open>line\<close> is not a number, and keeps a number whether or
  not it is an integer.
\<close>

theorem retained_finding_line_is_number:
  assumes "generateCodeReview JSON_parse create d l = Inr r"
      and "e \<in> set (comments r)"
  shows "\<exists>n. getProp e (js ''line'') = Some (JNum n)"
proof -
  from generate_sanitized [OF assms(1)] obtain v where "sanitizeResponse v = Inr r" by blast
  from sanitize_comments_valid [OF this assms(2)] show ?thesis
    by (auto simp: isReviewComment_def typeof_number_iff split: if_splits)
qed

theorem retained_finding_line_is_number_witness:
  "\<exists>n. getProp exampleFinding (js ''line'') = Some (JNum n)"
proof -
  have "exampleFinding
        \<in> set (comments \<lparr> summary = js ''Looks fine'', comments = [exampleFinding] \<rparr>)"
    by simp
  from retained_finding_line_is_number
         [where create = "answering exampleReplyText" and JSON_parse = exampleParse,
          OF example_generate this]
  show ?thesis .
qed

subsection \<open>Claim C3\<close>

text \<open>
  C3, as stated, asks that a reply that parses to anything but an object fails the
  request. The guard is \<open>typeof parsedResponse !== 'object' || parsedResponse === null\<close>,
  which an array passes: the reply \<open>[]\<close> gives a 200 with the fallback summary and no
  findings.
\<close>

theorem array_reply_accepted:
  "response (reviewRoute exampleNumberToString exampleReviewConfig exampleParse (answering (js ''[]'')) None
               (Some exampleRequestBody))
   = \<lparr> status = 200,
       payload = SuccessResponse
                   (JObj [(js ''summary'', JStr (js ''Code review completed'')),
                          (js ''comments'', JArr [])]) None \<rparr>"
proof -
  have 2: "sanitizeResponse (JArr [])
           = Inr \<lparr> summary = js ''Code review completed'', comments = [] \<rparr>"
    by (simp add: sanitizeResponse_def)
  have 3: "generateCodeReview exampleParse (answering (js ''[]'')) (diff exampleRequest)
             (language exampleRequest)
           = Inr \<lparr> summary = js ''Code review completed'', comments = [] \<rparr>"
    by (simp add: generate_completion [where content = "js ''[]''"] answering_def
        example_parse_array 2)
  show ?thesis
    unfolding route_valid [OF example_valid] 3
    by (simp add: createSuccessResponse_def reviewResponseJson_def)
qed

text \<open>
  C3, amended. For a valid request and a reply of the model backend, if the reply text
  is empty, is not parseable as JSON, or parses to null, a boolean, a number or a string,
  the request fails with status 500 and code \<open>EXTERNAL_SERVICE_ERROR\<close>, and the response
  carries nothing recovered from the reply. A reply that parses to an array is answered
  with status 200, the fallback summary and no findings.
\<close>

theorem unusable_reply_fails_request:
  assumes "validateReviewRequest numStr config rid b = Inr rq"
      and "create (userPrompt (diff rq) (language rq)) = Completion (Some content)"
  shows "(content = [] \<or> JSON_parse content = None
           \<or> (\<exists>v. JSON_parse content = Some v \<and> jsonScalar v) \<longrightarrow>
            response (reviewRoute numStr config JSON_parse create rid b) = generationFailed rid)
       \<and> (content \<noteq> [] \<and> JSON_parse content = Some (JArr xs) \<longrightarrow>
            response (reviewRoute numStr config JSON_parse create rid b)
              = \<lparr> status = 200,
                  payload = SuccessResponse
                              (JObj [(js ''summary'', JStr (js ''Code review completed'')),
                                     (js ''comments'', JArr [])]) rid \<rparr>)"
proof (intro conjI impI)
  assume a: "content = [] \<or> JSON_parse content = None
             \<or> (\<exists>v. JSON_parse content = Some v \<and> jsonScalar v)"
  have "\<exists>m. generateCodeReview JSON_parse create (diff rq) (language rq) = Inl m"
    using a sanitize_fails_iff
    by (auto simp: generate_completion [where create = create, OF assms(2)] split: option.splits)
  then show "response (reviewRoute numStr config JSON_parse create rid b) = generationFailed rid"
    by (auto simp: route_valid [OF assms(1)])
next
  assume a: "content \<noteq> [] \<and> JSON_parse content = Some (JArr xs)"
  then have "generateCodeReview JSON_parse create (diff rq) (language rq)
             = Inr \<lparr> summary = js ''Code review completed'', comments = [] \<rparr>"
    by (simp add: generate_completion [where create = create, OF assms(2)] sanitize_array)
  then show "response (reviewRoute numStr config JSON_parse create rid b)
              = \<lparr> status = 200,
                  payload = SuccessResponse
                              (JObj [(js ''summary'', JStr (js ''Code review completed'')),
                                     (js ''comments'', JArr [])]) rid \<rparr>"
    by (simp add: route_valid [OF assms(1)] createSuccessResponse_def reviewResponseJson_def)
qed

theorem unusable_reply_fails_request_witness:
  "response (reviewRoute exampleNumberToString exampleReviewConfig exampleParse (answering (js ''null'')) None
               (Some exampleRequestBody))
   = \<lparr> status = 500,
       payload = ErrorResponse EXTERNAL_SERVICE_ERROR (js ''Failed to generate code review'')
                   None None \<rparr>
   \<and> response (reviewRoute exampleNumberToString exampleReviewConfig exampleParse (answering (js ''[]'')) None
               (Some exampleRequestBody))
   = \<lparr> status = 200,
       payload = SuccessResponse
                   (JObj [(js ''summary'', JStr (js ''Code review completed'')),
                          (js ''comments'', JArr [])]) None \<rparr>"
proof -
  have 1: "answering (js ''null'') (userPrompt (diff exampleRequest) (language exampleRequest))
           = Completion (Some (js ''null''))"
    by (simp add: answering_def)
  have 2: "answering (js ''[]'') (userPrompt (diff exampleRequest) (language exampleRequest))
           = Completion (Some (js ''[]''))"
    by (simp add: answering_def)
  have 3: "js ''null'' = [] \<or> exampleParse (js ''null'') = None
           \<or> (\<exists>v. exampleParse (js ''null'') = Some v \<and> jsonScalar v)"
    by (simp add: example_parse_null jsonScalar_def)
  have 4: "js ''[]'' \<noteq> [] \<and> exampleParse (js ''[]'') = Some (JArr [])"
    by (simp add: example_parse_array)
  from unusable_reply_fails_request
         [where create = "answering (js ''null'')" and JSON_parse = exampleParse,
          OF example_valid 1, THEN conjunct1, rule_format, OF 3]
       unusable_reply_fails_request
         [where create = "answering (js ''[]'')" and JSON_parse = exampleParse,
          OF example_valid 2, THEN conjunct2, rule_format, OF 4]
  show ?thesis
    by (simp add: generationFailed_def)
qed

section \<open>Properties of the webhook service\<close>

subsection \<open>Splitting and trimming\<close>

lemma join_Cons_head: "join sep ((c # a) # rest) = c # join sep (a # rest)"
  by (cases rest) simp_all

lemma join_split: "join [sep] (js_split sep s) = s"
proof (induction s)
  case Nil
  show ?case by simp
next
  case (Cons c s)
  show ?case
  proof (cases "c = sep")
    case True
    with Cons show ?thesis by (cases "js_split sep s") simp_all
  next
    case False
    with Cons show ?thesis by (cases "js_split sep s") (auto simp: join_Cons_head)
  qed
qed

lemma split_segments: "seg \<in> set (js_split sep s) \<Longrightarrow> sep \<notin> set seg"
  by (induction s arbitrary: seg) (auto split: if_splits list.splits)

lemma dropWhile_all: "(\<forall>x\<in>set (dropWhile P xs). P x) \<longleftrightarrow> (\<forall>x\<in>set xs. P x)"
  by (induction xs) auto

lemma trim_empty_iff: "length (trim d) = 0 \<longleftrightarrow> blank d"
  by (simp add: trim_def blank_def dropWhile_eq_Nil_conv dropWhile_all)

subsection \<open>The calls of each stage\<close>

lemma fetch_calls: "c \<in> set (fst (fetchPullRequestDiff env owner rn pn)) \<Longrightarrow> isDiffFetch c"
  by (auto simp: fetchPullRequestDiff_def Let_def
           split: attempt.splits option.splits if_splits json.splits)

lemma publishReview_calls:
  "fst (publishReview env owner rn pn text) = [CreateReview owner rn pn (js ''COMMENT'') text]"
  by (simp add: publishReview_def)

lemma postReviewSummary_calls:
  "postReviewSummary env owner rn pn sv cs = (published, res) \<Longrightarrow>
   published = [] \<or> (\<exists>text. published = [CreateReview owner rn pn (js ''COMMENT'') text])"
  by (auto simp: postReviewSummary_def publishReview_def split: sum.splits)

lemma publishStage_calls:
  "calls (publishStage env rid owner rn pn made d) = made
   \<or> (\<exists>text. calls (publishStage env rid owner rn pn made d)
               = made @ [CreateReview owner rn pn (js ''COMMENT'') text])"
  by (auto simp: publishStage_def Let_def
           split: if_splits option.splits json.splits sum.splits prod.splits
           dest: postReviewSummary_calls)

lemma forwardStage_calls:
  "calls (forwardStage env config rid fn owner rn pn made d) = made
   \<or> (\<exists>rest. calls (forwardStage env config rid fn owner rn pn made d)
               = made @ HttpPost (reviewServiceUrl config @ js ''/review'')
                          (reviewRequestBody fn pn d) 120000 # rest
               \<and> (\<forall>c\<in>set rest. isPublication c))"
proof -
  let ?post = "HttpPost (reviewServiceUrl config @ js ''/review'') (reviewRequestBody fn pn d) 120000"
  show ?thesis
  proof (cases "d = [] \<or> length (trim d) = 0")
    case True
    then show ?thesis by (simp add: forwardStage_def)
  next
    case False
    show ?thesis
    proof (cases "http_post env (reviewServiceUrl config @ js ''/review'') (reviewRequestBody fn pn d)")
      case (Throws m)
      with False show ?thesis
        by (simp add: forwardStage_def reviewRequestBody_def Let_def)
    next
      case ThrowsNonError
      with False show ?thesis
        by (simp add: forwardStage_def reviewRequestBody_def Let_def)
    next
      case (Returns responseData)
      have eq: "forwardStage env config rid fn owner rn pn made d
                = publishStage env rid owner rn pn (made @ [?post]) responseData"
        using False Returns by (simp add: forwardStage_def reviewRequestBody_def Let_def)
      from publishStage_calls [of env rid owner rn pn "made @ [?post]" responseData]
      show ?thesis unfolding eq by auto
    qed
  qed
qed

lemma fetch_first_call:
  "\<exists>more. fst (fetchPullRequestDiff env owner rn pn) = PullsGet owner rn pn # more"
  by (auto simp: fetchPullRequestDiff_def Let_def
           split: attempt.splits option.splits if_splits json.splits)

lemma forwardStage_keeps: "\<exists>more. calls (forwardStage env config rid fn owner rn pn made d) = made @ more"
  using forwardStage_calls [of env config rid fn owner rn pn made d] by auto

lemma not_actionable: "\<not> actionable req \<Longrightarrow>
   githubWebhook env config req = \<lparr> calls = [], reply = ignoredReply (reqId req) \<rparr>"
  by (simp add: githubWebhook_def ignoredReply_def createSuccessResponse_def)

lemma githubWebhook_calls:
  "calls (githubWebhook env config req) = []
   \<or> (\<exists>fn owner rn pn fetched.
         (\<forall>c\<in>set fetched. isDiffFetch c)
         \<and> (calls (githubWebhook env config req) = fetched
            \<or> (\<exists>d rest. calls (githubWebhook env config req)
                   = fetched @ HttpPost (reviewServiceUrl config @ js ''/review'')
                                (reviewRequestBody fn pn d) 120000 # rest
                   \<and> (\<forall>c\<in>set rest. isPublication c))))"
proof (cases "actionable req")
  case False
  then show ?thesis by (simp add: not_actionable)
next
  case True
  show ?thesis
  proof (cases "calls (githubWebhook env config req) = []")
    case True
    then show ?thesis by simp
  next
    case False
    with \<open>actionable req\<close> obtain fn owner rn pn where
      gw: "githubWebhook env config req =
             (case fetchPullRequestDiff env owner rn pn of
                (fetched, Inl m) \<Rightarrow> \<lparr> calls = fetched, reply = webhookCatch (Some m) (reqId req) \<rparr>
              | (fetched, Inr d) \<Rightarrow> forwardStage env config (reqId req) fn owner rn pn fetched d)"
      by (auto simp: githubWebhook_def Let_def split: option.splits if_splits prod.splits)
    obtain fetched res where f: "fetchPullRequestDiff env owner rn pn = (fetched, res)"
      by (cases "fetchPullRequestDiff env owner rn pn")
    have fc: "\<forall>c\<in>set fetched. isDiffFetch c"
      using fetch_calls [of _ env owner rn pn] f by simp
    show ?thesis
    proof (cases res)
      case (Inl m)
      with gw f fc show ?thesis by auto
    next
      case (Inr d)
      with gw f have "githubWebhook env config req
                      = forwardStage env config (reqId req) fn owner rn pn fetched d" by simp
      with forwardStage_calls [of env config "reqId req" fn owner rn pn fetched d] fc
      show ?thesis by metis
    qed
  qed
qed

subsection \<open>The stages of the handler\<close>

lemma identity_some:
  assumes "actionable req" and "pullRequestIdentity req = Some (fn, owner, rn, pn)"
  shows "githubWebhook env config req =
           (case fetchPullRequestDiff env owner rn pn of
              (fetched, Inl m) \<Rightarrow> \<lparr> calls = fetched, reply = webhookCatch (Some m) (reqId req) \<rparr>
            | (fetched, Inr d) \<Rightarrow> forwardStage env config (reqId req) fn owner rn pn fetched d)"
  using assms
  by (auto simp: githubWebhook_def pullRequestIdentity_def elemAt_def Let_def
           split: option.splits if_splits list.splits)

lemma identity_none:
  assumes "actionable req" and "pullRequestIdentity req = None"
  shows "\<exists>msg details. githubWebhook env config req =
           \<lparr> calls = [],
             reply = \<lparr> status = 400,
                       payload = ErrorResponse VALIDATION_ERROR msg details (reqId req) \<rparr> \<rparr>"
  using assms
  by (auto simp: githubWebhook_def pullRequestIdentity_def elemAt_def Let_def
                 createErrorResponse_def
           split: option.splits if_splits list.splits)



lemma forwardStage_returns:
  assumes "\<not> blank d"
      and "http_post env (reviewServiceUrl config @ js ''/review'') (reviewRequestBody fn pn d)
           = Returns responseData"
  shows "forwardStage env config rid fn owner rn pn made d =
           publishStage env rid owner rn pn
             (made @ [HttpPost (reviewServiceUrl config @ js ''/review'')
                        (reviewRequestBody fn pn d) 120000]) responseData"
proof -
  have "\<not> (d = [] \<or> length (trim d) = 0)"
    using assms(1) trim_empty_iff [of d] by (auto simp: blank_def)
  then show ?thesis
    using assms(2)
    by (simp add: forwardStage_def reviewRequestBody_def Let_def)
qed




text \<open>
  The review data are the \<open>data\<close> of the response where that is truthy, and else the
  response itself.
\<close>

lemma reviewData_selected:
  assumes "(\<not> truthy (getProp responseData (js ''data'')) \<and> reviewData = responseData)
           \<or> (getProp responseData (js ''data'') = Some reviewData \<and> truthy (Some reviewData))"
  shows "(if truthy (getProp responseData (js ''data''))
          then the (getProp responseData (js ''data'')) else responseData) = reviewData"
  using assms by auto


lemma publishStage_usable:
  assumes "responseData \<noteq> JNull"
      and "(\<not> truthy (getProp responseData (js ''data'')) \<and> reviewData = responseData)
           \<or> (getProp responseData (js ''data'') = Some reviewData \<and> truthy (Some reviewData))"
      and "getProp reviewData (js ''summary'') = Some sv" and "truthy (Some sv)"
      and "getProp reviewData (js ''comments'') = Some (JArr entries)"
  shows "publishStage env rid owner rn pn made responseData =
           (case postReviewSummary env owner rn pn sv entries of
              (published, Inr u) \<Rightarrow>
                \<lparr> calls = made @ published,
                  reply = \<lparr> status = 200,
                            payload = SuccessResponse
                                        (JObj [(js ''forwardedToReviewService'', JBool True),
                                               (js ''postedReviewToGitHub'', JBool True)]) rid \<rparr> \<rparr>
            | (published, Inl m) \<Rightarrow>
                \<lparr> calls = made @ published,
                  reply = \<lparr> status = 500,
                            payload = ErrorResponse EXTERNAL_SERVICE_ERROR
                                        (js ''Failed to post review to GitHub: '' @ m) None rid \<rparr> \<rparr>)"
  unfolding publishStage_def Let_def reviewData_selected [OF assms(2)]
  using assms(1,3,4,5)
  by (simp add: createErrorResponse_def createSuccessResponse_def)




lemma post_done:
  "reviewBody (Number_toString env) sv entries = Inr text \<Longrightarrow>
   createReview env owner rn pn text = Returns u \<Longrightarrow>
   postReviewSummary env owner rn pn sv entries
     = ([CreateReview owner rn pn (js ''COMMENT'') text], Inr ())"
  by (simp add: postReviewSummary_def publishReview_def)


subsection \<open>The example webhooks, evaluated\<close>

lemma example_verified:
  "verifyGitHubSignature exampleHmac exampleWebhookConfig (exampleWebhook act fn)
   = ([Log Debug (js ''Verifying GitHub webhook signature''),
       TimingSafeEqual (utf8 (js ''sha256=737b7d'')) (utf8 (js ''sha256=737b7d'')),
       Log Debug (js ''GitHub webhook signature verified successfully'')], Next)"
proof -
  have h: "hex (exampleHmac (js ''s'') [123, 125]) = js ''737b7d''"
    by (simp add: hex_def exampleHmac_def hexDigit_def js_def)
  have e: "js ''sha256='' @ js ''737b7d'' = js ''sha256=737b7d''"
    by (simp add: js_def)
  have n: "js ''s'' \<noteq> []" "js ''sha256=737b7d'' \<noteq> []"
    by (simp_all add: js_def)
  show ?thesis
    by (simp add: verifyGitHubSignature_def exampleWebhookConfig_def exampleWebhook_def
        h e n timingSafeEqual_def Let_def)
qed

lemma example_split: "js_split 47 (js ''acme/widgets'') = [js ''acme'', js ''widgets'']"
  by (simp add: js_def)

lemma example_actionable: "actionable (exampleWebhook (js ''opened'') fn)"
  by (simp add: actionable_def exampleWebhook_def examplePayload_def js_def)

lemma example_not_actionable: "\<not> actionable (exampleWebhook (js ''closed'') fn)"
  by (simp add: actionable_def exampleWebhook_def examplePayload_def js_def)

lemma example_fetch:
  "fetchPullRequestDiff exampleEnv owner rn pn
   = ([PullsGet owner rn pn,
       HttpGet (js ''https://github.com/acme/widgets/pull/42.diff'') 10000], Inr (js ''+x''))"
  by (simp add: fetchPullRequestDiff_def exampleEnv_def Let_def js_def)

lemma example_finding_line:
  "findingLine numStr exampleFinding
   = Inr (js ''- (**warning**) `a.ts:3` '' @ [8211] @ js '' unused var'')"
proof -
  have p: "getProp exampleFinding (js ''severity'') = Some (JStr (js ''warning''))"
    "getProp exampleFinding (js ''file'') = Some (JStr (js ''a.ts''))"
    "getProp exampleFinding (js ''line'') = Some (JNum 3)"
    "getProp exampleFinding (js ''message'') = Some (JStr (js ''unused var''))"
    by (simp_all add: exampleFinding_def)
  have n: "exampleFinding \<noteq> JNull"
    by (simp add: exampleFinding_def)
  show ?thesis
    by (simp add: findingLine_def p n interpolate_def print_3) (simp add: js_def)
qed

lemma example_body:
  "reviewBody numStr (JStr (js ''Looks fine'')) [exampleFinding] = Inr exampleReviewBody"
  by (simp add: reviewBody_def findings_def example_finding_line exampleReviewBody_def)

lemma example_data:
  "exampleReviewData \<noteq> JNull"
  "(\<not> truthy (getProp exampleReviewData (js ''data''))
    \<and> JObj [(js ''summary'', JStr (js ''Looks fine'')), (js ''comments'', JArr [exampleFinding])]
      = exampleReviewData)
   \<or> (getProp exampleReviewData (js ''data'')
       = Some (JObj [(js ''summary'', JStr (js ''Looks fine'')),
                     (js ''comments'', JArr [exampleFinding])])
      \<and> truthy (Some (JObj [(js ''summary'', JStr (js ''Looks fine'')),
                            (js ''comments'', JArr [exampleFinding])])))"
  "getProp (JObj [(js ''summary'', JStr (js ''Looks fine'')),
                  (js ''comments'', JArr [exampleFinding])]) (js ''summary'')
   = Some (JStr (js ''Looks fine''))"
  "truthy (Some (JStr (js ''Looks fine'')))"
  "getProp (JObj [(js ''summary'', JStr (js ''Looks fine'')),
                  (js ''comments'', JArr [exampleFinding])]) (js ''comments'')
   = Some (JArr [exampleFinding])"
  by (simp_all add: exampleReviewData_def)

lemma example_identity:
  assumes "js_split 47 fn = owner # rn # rest" and "fn \<noteq> []" and "owner \<noteq> []" and "rn \<noteq> []"
  shows "pullRequestIdentity (exampleWebhook act fn) = Some (fn, owner, rn, 42)"
  using assms by (simp add: pullRequestIdentity_def exampleWebhook_def examplePayload_def)

lemma example_run_general:
  assumes "js_split 47 fn = owner # rn # rest" and "fn \<noteq> []" and "owner \<noteq> []" and "rn \<noteq> []"
  shows "githubWebhook exampleEnv exampleWebhookConfig (exampleWebhook (js ''opened'') fn)
   = \<lparr> calls =
         [PullsGet owner rn 42,
          HttpGet (js ''https://github.com/acme/widgets/pull/42.diff'') 10000,
          HttpPost (js ''http://localhost:4002/review'') (reviewRequestBody fn 42 (js ''+x'')) 120000,
          CreateReview owner rn 42 (js ''COMMENT'') exampleReviewBody],
       reply = \<lparr> status = 200,
                 payload = SuccessResponse
                             (JObj [(js ''forwardedToReviewService'', JBool True),
                                    (js ''postedReviewToGitHub'', JBool True)])
                             (Some (js ''r1'')) \<rparr> \<rparr>"
proof -
  have rid: "reqId (exampleWebhook (js ''opened'') fn) = Some (js ''r1'')"
    by (simp add: exampleWebhook_def)
  have nb: "\<not> blank (js ''+x'')"
    by (simp add: blank_def isWhiteSpace_def js_def)
  have url: "reviewServiceUrl exampleWebhookConfig @ js ''/review'' = js ''http://localhost:4002/review''"
    by (simp add: exampleWebhookConfig_def js_def)
  have post: "http_post exampleEnv (js ''http://localhost:4002/review'')
                (reviewRequestBody fn 42 (js ''+x'')) = Returns exampleReviewData"
    by (simp add: exampleEnv_def)
  have cr: "createReview exampleEnv owner rn 42 exampleReviewBody = Returns ()"
    by (simp add: exampleEnv_def)
  have ps: "publishStage exampleEnv (Some (js ''r1'')) owner rn 42 made exampleReviewData
            = \<lparr> calls = made @ [CreateReview owner rn 42 (js ''COMMENT'') exampleReviewBody],
                reply = \<lparr> status = 200,
                 payload = SuccessResponse
                             (JObj [(js ''forwardedToReviewService'', JBool True),
                                    (js ''postedReviewToGitHub'', JBool True)])
                             (Some (js ''r1'')) \<rparr> \<rparr>" for made
    by (simp add: publishStage_usable [OF example_data(1,2,3,4,5)]
        post_done [OF example_body cr])
  show ?thesis
    unfolding identity_some [OF example_actionable example_identity [OF assms]]
    by (simp add: example_fetch rid
        forwardStage_returns [where config = exampleWebhookConfig, unfolded url, OF nb post] ps)
qed



lemma example_route:
  "webhookRoute exampleHmac env exampleWebhookConfig (exampleWebhook act fn)
   = githubWebhook env exampleWebhookConfig (exampleWebhook act fn)"
  by (simp add: webhookRoute_def example_verified)

lemma split_abc: "js_split 47 (js ''a/b/c'') = [js ''a'', js ''b'', js ''c'']"
  by (simp add: js_def)







lemma example_reqId: "reqId (exampleWebhook act fn) = Some (js ''r1'')"
  by (simp add: exampleWebhook_def)




lemma split_trailing: "js_split 47 (js ''a/'') = [js ''a'', []]"
  by (simp add: js_def)

subsection \<open>Claim C8\<close>

text \<open>
  C8. An authenticated webhook whose event kind is not \<open>pull_request\<close>, or whose action
  is absent or outside \<open>opened\<close>, \<open>reopened\<close>, \<open>synchronize\<close>, is answered with status
  200 and the success envelope \<open>{ignored: true}\<close>, and the run makes no call at all: no
  diff fetch, no forwarding, no publication.
\<close>

theorem irrelevant_event_ignored:
  assumes "snd (verifyGitHubSignature hmac config req) = Next"
      and "x_github_event req \<noteq> Some (HString (js ''pull_request''))
           \<or> action (reqBody req) \<notin> {Some (js ''opened''), Some (js ''reopened''), Some (js ''synchronize'')}"
  shows "webhookRoute hmac env config req = \<lparr> calls = [], reply = ignoredReply (reqId req) \<rparr>"
proof -
  have "\<not> actionable req"
    using assms(2) by (auto simp: actionable_def split: option.splits)
  then show ?thesis
    using assms(1) by (simp add: webhookRoute_def not_actionable)
qed

theorem irrelevant_event_ignored_witness:
  "webhookRoute exampleHmac exampleEnv exampleWebhookConfig
     (exampleWebhook (js ''closed'') (js ''acme/widgets''))
   = \<lparr> calls = [],
       reply = \<lparr> status = 200,
                 payload = SuccessResponse (JObj [(js ''ignored'', JBool True)])
                             (Some (js ''r1'')) \<rparr> \<rparr>"
proof -
  let ?req = "exampleWebhook (js ''closed'') (js ''acme/widgets'')"
  have v: "snd (verifyGitHubSignature exampleHmac exampleWebhookConfig ?req) = Next"
    by (simp add: example_verified)
  have h: "x_github_event ?req \<noteq> Some (HString (js ''pull_request''))
           \<or> action (reqBody ?req)
               \<notin> {Some (js ''opened''), Some (js ''reopened''), Some (js ''synchronize'')}"
    by (simp add: exampleWebhook_def examplePayload_def)
  from irrelevant_event_ignored [OF v h, of exampleEnv] show ?thesis
    by (simp add: ignoredReply_def example_reqId)
qed

subsection \<open>Claim C10\<close>

text \<open>
  C10. Every request a run forwards to the review service carries the language hint
  \<open>typescript\<close>: the property \<open>language\<close> of the posted body is present and is that
  constant string, whatever the webhook, the configuration and the outside world are.
\<close>

theorem forwarded_language_is_typescript:
  assumes "HttpPost url b t \<in> set (calls (webhookRoute hmac env config req))"
  shows "getProp b (js ''language'') = Some (JStr (js ''typescript''))"
proof -
  have in_gw: "HttpPost url b t \<in> set (calls (githubWebhook env config req))"
    using assms by (auto simp: webhookRoute_def split: verdict.splits)
  have lang: "\<And>fn pn d. getProp (reviewRequestBody fn pn d) (js ''language'')
                    = Some (JStr (js ''typescript''))"
    by (simp add: reviewRequestBody_def js_def)
  from githubWebhook_calls [of env config req] in_gw
  obtain fn pn d fetched rest where
    "\<forall>c\<in>set fetched. isDiffFetch c" "\<forall>c\<in>set rest. isPublication c"
    "HttpPost url b t \<in> set fetched \<or> b = reviewRequestBody fn pn d \<or> HttpPost url b t \<in> set rest"
    by fastforce
  then show ?thesis using lang by fastforce
qed

theorem forwarded_language_is_typescript_witness:
  "getProp (reviewRequestBody (js ''acme/widgets'') 42 (js ''+x'')) (js ''language'')
   = Some (JStr (js ''typescript''))"
proof -
  have "HttpPost (js ''http://localhost:4002/review'')
          (reviewRequestBody (js ''acme/widgets'') 42 (js ''+x'')) 120000
        \<in> set (calls (webhookRoute exampleHmac exampleEnv exampleWebhookConfig
                         (exampleWebhook (js ''opened'') (js ''acme/widgets''))))"
    unfolding example_route example_run_general [OF example_split, simplified] by simp
  from forwarded_language_is_typescript [OF this] show ?thesis .
qed

subsection \<open>Claim C5\<close>

text \<open>
  C5, as stated, asks that a full name of more than two segments is rejected. The handler
  destructures the first two elements of \<open>fullName.split('/')\<close> and tests only those:
  for \<open>a/b/c\<close> it fetches the diff of \<open>a/b\<close> and goes on to publish.
\<close>

theorem three_segment_full_name_accepted:
  "webhookRoute exampleHmac exampleEnv exampleWebhookConfig
     (exampleWebhook (js ''opened'') (js ''a/b/c''))
   = \<lparr> calls =
         [PullsGet (js ''a'') (js ''b'') 42,
          HttpGet (js ''https://github.com/acme/widgets/pull/42.diff'') 10000,
          HttpPost (js ''http://localhost:4002/review'')
            (reviewRequestBody (js ''a/b/c'') 42 (js ''+x'')) 120000,
          CreateReview (js ''a'') (js ''b'') 42 (js ''COMMENT'') exampleReviewBody],
       reply = \<lparr> status = 200,
                 payload = SuccessResponse
                             (JObj [(js ''forwardedToReviewService'', JBool True),
                                    (js ''postedReviewToGitHub'', JBool True)])
                             (Some (js ''r1'')) \<rparr> \<rparr>"
  unfolding example_route
  by (rule example_run_general [OF split_abc]) simp_all

text \<open>
  C5, amended. For an authenticated, actionable pull-request webhook, if the repository
  or its full name is missing or empty, or the pull request or its number is missing or
  0, or the full name has no second segment on \<open>/\<close>, or its first or second segment is
  empty, the run answers 400 with code \<open>VALIDATION_ERROR\<close> and makes no call, so no diff
  is fetched. Segments after the second are not examined: when the number is not 0 and the
  first two segments are not empty, the run starts by requesting the pull request of that
  owner and repository, whatever follows the second segment.
\<close>

theorem missing_identity_rejected:
  assumes "snd (verifyGitHubSignature hmac config req) = Next"
      and "actionable req"
  shows "(repository (reqBody req) = None
           \<or> pull_request (reqBody req) = None
           \<or> (\<exists>p. pull_request (reqBody req) = Some p \<and> number p = 0)
           \<or> (\<exists>r. repository (reqBody req) = Some r
                  \<and> (full_name r = []
                     \<or> length (js_split 47 (full_name r)) < 2
                     \<or> js_split 47 (full_name r) ! 0 = []
                     \<or> js_split 47 (full_name r) ! 1 = [])) \<longrightarrow>
          (\<exists>msg details. webhookRoute hmac env config req =
             \<lparr> calls = [],
               reply = \<lparr> status = 400,
                         payload = ErrorResponse VALIDATION_ERROR msg details (reqId req) \<rparr> \<rparr>))
       \<and> (repository (reqBody req) = Some r \<and> pull_request (reqBody req) = Some p
           \<and> number p \<noteq> 0 \<and> js_split 47 (full_name r) = owner # rn # rest
           \<and> owner \<noteq> [] \<and> rn \<noteq> [] \<longrightarrow>
          (\<exists>more. calls (webhookRoute hmac env config req) = PullsGet owner rn (number p) # more))"
proof (intro conjI impI)
  assume "repository (reqBody req) = None
           \<or> pull_request (reqBody req) = None
           \<or> (\<exists>p. pull_request (reqBody req) = Some p \<and> number p = 0)
           \<or> (\<exists>r. repository (reqBody req) = Some r
                  \<and> (full_name r = []
                     \<or> length (js_split 47 (full_name r)) < 2
                     \<or> js_split 47 (full_name r) ! 0 = []
                     \<or> js_split 47 (full_name r) ! 1 = []))"
  then have "pullRequestIdentity req = None"
    by (auto simp: pullRequestIdentity_def split: option.splits list.splits)
  from identity_none [OF assms(2) this]
  show "\<exists>msg details. webhookRoute hmac env config req =
             \<lparr> calls = [],
               reply = \<lparr> status = 400,
                         payload = ErrorResponse VALIDATION_ERROR msg details (reqId req) \<rparr> \<rparr>"
    using assms(1) by (simp add: webhookRoute_def)
next
  assume a: "repository (reqBody req) = Some r \<and> pull_request (reqBody req) = Some p
           \<and> number p \<noteq> 0 \<and> js_split 47 (full_name r) = owner # rn # rest
           \<and> owner \<noteq> [] \<and> rn \<noteq> []"
  then have "full_name r \<noteq> []" by auto
  with a have id: "pullRequestIdentity req = Some (full_name r, owner, rn, number p)"
    by (simp add: pullRequestIdentity_def)
  obtain fetched res where f: "fetchPullRequestDiff env owner rn (number p) = (fetched, res)"
    by (cases "fetchPullRequestDiff env owner rn (number p)")
  from fetch_first_call [of env owner rn "number p"] f
  obtain more where m: "fetched = PullsGet owner rn (number p) # more" by auto
  have "\<exists>more'. calls (githubWebhook env config req) = fetched @ more'"
    unfolding identity_some [OF assms(2) id] f
    using forwardStage_keeps [of env config "reqId req" "full_name r" owner rn "number p" fetched]
    by (cases res) auto
  then show "\<exists>more. calls (webhookRoute hmac env config req) = PullsGet owner rn (number p) # more"
    using assms(1) m by (auto simp: webhookRoute_def)
qed

theorem missing_identity_rejected_witness:
  "(\<exists>msg details.
     webhookRoute exampleHmac exampleEnv exampleWebhookConfig
       (exampleWebhook (js ''opened'') (js ''a/''))
     = \<lparr> calls = [],
         reply = \<lparr> status = 400,
                   payload = ErrorResponse VALIDATION_ERROR msg details (Some (js ''r1'')) \<rparr> \<rparr>)
   \<and> (\<exists>more. calls (webhookRoute exampleHmac exampleEnv exampleWebhookConfig
                       (exampleWebhook (js ''opened'') (js ''a/b/c'')))
              = PullsGet (js ''a'') (js ''b'') 42 # more)"
proof -
  let ?req = "exampleWebhook (js ''opened'') (js ''a/'')"
  let ?req3 = "exampleWebhook (js ''opened'') (js ''a/b/c'')"
  have v: "snd (verifyGitHubSignature exampleHmac exampleWebhookConfig (exampleWebhook act fn)) = Next"
    for act fn
    by (simp add: example_verified)
  have r: "repository (reqBody ?req)
           = Some \<lparr> name = js ''widgets'', full_name = js ''a/'',
                    html_url = js ''https://github.com/acme/widgets'' \<rparr>"
    by (simp add: exampleWebhook_def examplePayload_def)
  have h: "repository (reqBody ?req) = None
           \<or> pull_request (reqBody ?req) = None
           \<or> (\<exists>p. pull_request (reqBody ?req) = Some p \<and> number p = 0)
           \<or> (\<exists>r. repository (reqBody ?req) = Some r
                  \<and> (full_name r = []
                     \<or> length (js_split 47 (full_name r)) < 2
                     \<or> js_split 47 (full_name r) ! 0 = []
                     \<or> js_split 47 (full_name r) ! 1 = []))"
    by (simp add: r split_trailing)
  have h3: "repository (reqBody ?req3)
              = Some \<lparr> name = js ''widgets'', full_name = js ''a/b/c'',
                       html_url = js ''https://github.com/acme/widgets'' \<rparr>
            \<and> pull_request (reqBody ?req3)
              = Some \<lparr> number = 42, title = js ''t'', body = js ''b'',
                       head = \<lparr> ref = js ''feature'', sha = js ''1'' \<rparr>,
                       base = \<lparr> ref = js ''main'', sha = js ''0'' \<rparr> \<rparr>
            \<and> number \<lparr> number = 42, title = js ''t'', body = js ''b'',
                       head = \<lparr> ref = js ''feature'', sha = js ''1'' \<rparr>,
                       base = \<lparr> ref = js ''main'', sha = js ''0'' \<rparr> \<rparr> \<noteq> 0
            \<and> js_split 47 (full_name \<lparr> name = js ''widgets'', full_name = js ''a/b/c'',
                       html_url = js ''https://github.com/acme/widgets'' \<rparr>)
                = js ''a'' # js ''b'' # [js ''c'']
            \<and> js ''a'' \<noteq> [] \<and> js ''b'' \<noteq> []"
    by (simp add: exampleWebhook_def examplePayload_def split_abc)
  from missing_identity_rejected [OF v example_actionable, where env = exampleEnv,
                                  THEN conjunct1, rule_format, OF h]
       missing_identity_rejected [OF v example_actionable, where env = exampleEnv,
                                  THEN conjunct2, rule_format, OF h3]
  show ?thesis
    by (simp add: example_reqId)
qed

subsection \<open>Claim C4\<close>




declare digits.simps [simp del]

section \<open>Properties of the request validation\<close>

lemma decimalValue_snoc: "decimalValue (cs @ [c]) = 10 * decimalValue cs + (c - 48)"
  by (induction cs) (simp_all add: algebra_simps)

lemma decimalValue_digits: "decimalValue (digits n) = n"
proof (induction n rule: digits.induct)
  case (1 n)
  show ?case
  proof (cases "n < 10")
    case True
    then show ?thesis by (simp add: digits.simps [of n])
  next
    case False
    with 1 show ?thesis
      by (simp add: digits.simps [of n] decimalValue_snoc)
  qed
qed

lemma digits_range: "c \<in> set (digits n) \<Longrightarrow> 48 \<le> c \<and> c \<le> 57"
proof (induction n rule: digits.induct)
  case (1 n)
  show ?case
  proof (cases "n < 10")
    case True
    with 1(2) show ?thesis by (simp add: digits.simps [of n])
  next
    case False
    with 1 show ?thesis
      by (auto simp: digits.simps [of n])
  qed
qed







lemma digits_nonempty: "digits n \<noteq> []"
  by (cases "n < 10") (simp_all add: digits.simps [of n])

lemma decimalOf_digits: "decimalOf (digits n) n"
  using digits_range [of _ n]
  by (auto simp: decimalOf_def digits_nonempty decimalValue_digits list_all_iff)

lemma decimalOf_printed:
  "n \<le> 9007199254740992 \<Longrightarrow> decimalOf (numberToString numStr (of_nat n)) n"
  by (simp add: numberToString_nat decimalOf_digits)












section \<open>Properties of the rendering of a review\<close>

lemma split_no_sep: "sep \<notin> set x \<Longrightarrow> js_split sep x = [x]"
  by (induction x) auto

lemma split_append: "sep \<notin> set x \<Longrightarrow> js_split sep (x @ sep # rest) = x # js_split sep rest"
  by (induction x) auto

lemma split_join:
  "xs \<noteq> [] \<Longrightarrow> \<forall>x\<in>set xs. sep \<notin> set x \<Longrightarrow> js_split sep (join [sep] xs) = xs"
proof (induction xs)
  case Nil
  then show ?case by simp
next
  case (Cons x xs)
  show ?case
  proof (cases xs)
    case Nil
    with Cons.prems show ?thesis by (simp add: split_no_sep)
  next
    case (Cons y ys)
    with Cons.IH Cons.prems show ?thesis by (simp add: split_append)
  qed
qed

text \<open>A well-formed finding is an object that holds the four properties.\<close>

lemma well_formed_props:
  assumes "spec_well_formed_finding c"
  shows "\<exists>path n sev msg.
           c \<noteq> JNull
           \<and> getProp c (js ''file'') = Some (JStr path)
           \<and> getProp c (js ''line'') = Some (JNum n)
           \<and> getProp c (js ''severity'') = Some (JStr sev)
           \<and> (sev = js ''info'' \<or> sev = js ''warning'' \<or> sev = js ''error'')
           \<and> getProp c (js ''message'') = Some (JStr msg)"
  using assms
  by (cases c) (auto simp: spec_well_formed_finding_def split: option.splits json.splits)

lemma well_formed_line:
  assumes "spec_well_formed_finding c"
  shows "findingLine numStr c
         = Inr (js ''- (**'' @ stringValue (getProp c (js ''severity'')) @ js ''**) `''
                @ stringValue (getProp c (js ''file'')) @ js '':''
                @ numberToString numStr (numberValue (getProp c (js ''line'')))
                @ js ''` '' @ [8211] @ js '' '' @ stringValue (getProp c (js ''message'')))"
proof -
  from well_formed_props [OF assms] obtain path n sev msg where
    "c \<noteq> JNull" "getProp c (js ''file'') = Some (JStr path)"
    "getProp c (js ''line'') = Some (JNum n)" "getProp c (js ''severity'') = Some (JStr sev)"
    "getProp c (js ''message'') = Some (JStr msg)"
    by blast
  then show ?thesis
    by (simp add: findingLine_def interpolate_def stringValue_def numberValue_def)
qed

lemma well_formed_no_line_feed:
  assumes "spec_well_formed_finding c"
      and "10 \<notin> set (stringValue (getProp c (js ''file'')))"
      and "10 \<notin> set (stringValue (getProp c (js ''message'')))"
      and "10 \<notin> set (numberToString numStr (numberValue (getProp c (js ''line''))))"
  shows "10 \<notin> set (js ''- (**'' @ stringValue (getProp c (js ''severity'')) @ js ''**) `''
                @ stringValue (getProp c (js ''file'')) @ js '':''
                @ numberToString numStr (numberValue (getProp c (js ''line'')))
                @ js ''` '' @ [8211] @ js '' '' @ stringValue (getProp c (js ''message'')))"
proof -
  from well_formed_props [OF assms(1)] obtain sev where
    "getProp c (js ''severity'') = Some (JStr sev)"
    "sev = js ''info'' \<or> sev = js ''warning'' \<or> sev = js ''error''"
    by blast
  then have "10 \<notin> set (stringValue (getProp c (js ''severity'')))"
    by (auto simp: stringValue_def js_def)
  moreover have "10 \<notin> set (js ''- (**'')" "10 \<notin> set (js ''**) `'')" "10 \<notin> set (js '':'')"
    "10 \<notin> set (js ''` '')" "10 \<notin> set (js '' '')"
    by (simp_all add: js_def)
  ultimately show ?thesis
    using assms(2,3,4) by simp
qed

lemma well_formed_findings:
  assumes "\<forall>c\<in>set cs. spec_well_formed_finding c" and "cs \<noteq> []"
  shows "findings numStr cs
         = Inr (join [10]
                  (map (\<lambda>c. js ''- (**'' @ stringValue (getProp c (js ''severity'')) @ js ''**) `''
                            @ stringValue (getProp c (js ''file'')) @ js '':''
                            @ numberToString numStr (numberValue (getProp c (js ''line'')))
                            @ js ''` '' @ [8211] @ js '' ''
                            @ stringValue (getProp c (js ''message''))) cs))"
proof -
  have "sequence (map (findingLine numStr) cs)
        = Inr (map (\<lambda>c. js ''- (**'' @ stringValue (getProp c (js ''severity'')) @ js ''**) `''
                            @ stringValue (getProp c (js ''file'')) @ js '':''
                            @ numberToString numStr (numberValue (getProp c (js ''line'')))
                            @ js ''` '' @ [8211] @ js '' ''
                            @ stringValue (getProp c (js ''message''))) cs)"
    by (rule sequence_map_Inr) (simp add: assms(1) well_formed_line)
  with assms(2) show ?thesis
    by (simp add: findings_def)
qed

lemma multiline_well_formed: "spec_well_formed_finding multilineFinding"
  by (simp add: spec_well_formed_finding_def multilineFinding_def js_def)

lemma example_well_formed: "spec_well_formed_finding exampleFinding"
  by (simp add: spec_well_formed_finding_def exampleFinding_def js_def)

text \<open>
  C7, as stated, asks for exactly N bulleted lines for N well-formed findings. The
  messages are copied without change, so a line feed inside one starts a new line: the
  single well-formed finding below, whose message holds a line feed and a dash, renders
  as two lines that begin with a bullet.
\<close>

theorem multiline_message_adds_bulleted_line:
  "spec_well_formed_finding multilineFinding
   \<and> findings exampleNumberToString [multilineFinding]
     = Inr (js ''- (**info**) `a.ts:3` '' @ [8211] @ js '' x'' @ [10] @ js ''- y'')
   \<and> js_split 10 (js ''- (**info**) `a.ts:3` '' @ [8211] @ js '' x'' @ [10] @ js ''- y'')
     = [js ''- (**info**) `a.ts:3` '' @ [8211] @ js '' x'', js ''- y'']"
proof -
  let ?first = "js ''- (**info**) `a.ts:3` '' @ [8211] @ js '' x''"
  have p: "getProp multilineFinding (js ''severity'') = Some (JStr (js ''info''))"
    "getProp multilineFinding (js ''file'') = Some (JStr (js ''a.ts''))"
    "getProp multilineFinding (js ''line'') = Some (JNum 3)"
    "getProp multilineFinding (js ''message'') = Some (JStr (js ''x'' @ [10] @ js ''- y''))"
    by (simp_all add: multilineFinding_def)
  have n: "multilineFinding \<noteq> JNull"
    by (simp add: multilineFinding_def)
  have "findingLine exampleNumberToString multilineFinding = Inr (?first @ [10] @ js ''- y'')"
    by (simp add: findingLine_def p n interpolate_def print_3) (simp add: js_def)
  then have f: "findings exampleNumberToString [multilineFinding]
                = Inr (?first @ [10] @ js ''- y'')"
    by (simp add: findings_def)
  have 1: "10 \<notin> set ?first"
    by (simp add: js_def)
  have 2: "10 \<notin> set (js ''- y'')"
    by (simp add: js_def)
  have "js_split 10 (?first @ 10 # js ''- y'') = [?first, js ''- y'']"
    unfolding split_append [OF 1] split_no_sep [OF 2] ..
  then have s: "js_split 10 (?first @ [10] @ js ''- y'') = [?first, js ''- y'']"
    by simp
  from multiline_well_formed f s show ?thesis by simp
qed

text \<open>
  C7, amended. For comments that are all well-formed findings and a summary that is a
  string, \<open>postReviewSummary\<close> makes one call, a review with the event \<open>COMMENT\<close>, whose
  body is the heading, the summary and the rendered findings. Without findings the
  rendered findings are the fixed placeholder. With N findings whose file path, message
  and printed line contain no line feed, they are exactly N lines, in order, each made
  of \<open>- (**severity**) `file:line`\<close>, an en dash and the message, with the finding's
  severity, file and message unchanged and its line as JavaScript prints the number: a
  natural number up to \<open>2^53\<close> by its decimal digits.
\<close>

theorem review_body_renders_findings:
  assumes "\<forall>c\<in>set cs. spec_well_formed_finding c"
  shows "(\<exists>rendered.
            findings (Number_toString env) cs = Inr rendered
            \<and> fst (postReviewSummary env owner rn pn (JStr s) cs)
                = [CreateReview owner rn pn (js ''COMMENT'')
                     (js ''### '' @ [55358, 56598] @ js '' AI Code Review Assistant'' @ [10, 10]
                      @ s @ [10, 10] @ js ''#### Findings'' @ [10] @ rendered)]
            \<and> (cs = [] \<longrightarrow> rendered = js ''_No specific issues were detected. Nice work!_'')
            \<and> (cs \<noteq> []
                \<and> (\<forall>c\<in>set cs.
                      10 \<notin> set (stringValue (getProp c (js ''file'')))
                      \<and> 10 \<notin> set (stringValue (getProp c (js ''message'')))
                      \<and> 10 \<notin> set (numberToString (Number_toString env)
                                     (numberValue (getProp c (js ''line''))))) \<longrightarrow>
                js_split 10 rendered
                  = map (\<lambda>c. js ''- (**'' @ stringValue (getProp c (js ''severity'')) @ js ''**) `''
                            @ stringValue (getProp c (js ''file'')) @ js '':''
                            @ numberToString (Number_toString env)
                                (numberValue (getProp c (js ''line'')))
                            @ js ''` '' @ [8211] @ js '' ''
                            @ stringValue (getProp c (js ''message''))) cs))
       \<and> (n \<le> 9007199254740992 \<longrightarrow>
            decimalOf (numberToString (Number_toString env) (of_nat n)) n)"
proof (intro conjI impI)
  let ?line = "\<lambda>c. js ''- (**'' @ stringValue (getProp c (js ''severity'')) @ js ''**) `''
                            @ stringValue (getProp c (js ''file'')) @ js '':''
                            @ numberToString (Number_toString env)
                                (numberValue (getProp c (js ''line'')))
                            @ js ''` '' @ [8211] @ js '' ''
                            @ stringValue (getProp c (js ''message''))"
  let ?rendered = "if cs = [] then js ''_No specific issues were detected. Nice work!_''
                   else join [10] (map ?line cs)"
  have f: "findings (Number_toString env) cs = Inr ?rendered"
  proof (cases "cs = []")
    case True
    then show ?thesis by (simp add: findings_def)
  next
    case False
    with well_formed_findings [OF assms False, of "Number_toString env"] show ?thesis by simp
  qed
  have b: "reviewBody (Number_toString env) (JStr s) cs
           = Inr (js ''### '' @ [55358, 56598] @ js '' AI Code Review Assistant'' @ [10, 10]
                  @ s @ [10, 10] @ js ''#### Findings'' @ [10] @ ?rendered)"
    unfolding reviewBody_def f by simp
  have p: "fst (postReviewSummary env owner rn pn (JStr s) cs)
           = [CreateReview owner rn pn (js ''COMMENT'')
                (js ''### '' @ [55358, 56598] @ js '' AI Code Review Assistant'' @ [10, 10]
                 @ s @ [10, 10] @ js ''#### Findings'' @ [10] @ ?rendered)]"
    unfolding postReviewSummary_def b by (simp add: publishReview_def)
  have l: "js_split 10 ?rendered = map ?line cs"
    if h: "cs \<noteq> []
           \<and> (\<forall>c\<in>set cs.
                 10 \<notin> set (stringValue (getProp c (js ''file'')))
                 \<and> 10 \<notin> set (stringValue (getProp c (js ''message'')))
                 \<and> 10 \<notin> set (numberToString (Number_toString env)
                                (numberValue (getProp c (js ''line'')))))"
  proof -
    have "\<forall>x\<in>set (map ?line cs). 10 \<notin> set x"
      using h assms well_formed_no_line_feed [where numStr = "Number_toString env"]
      by (simp only: set_map ball_simps) blast
    moreover have "map ?line cs \<noteq> []" using h by simp
    ultimately have "js_split 10 (join [10] (map ?line cs)) = map ?line cs"
      by (rule split_join [rotated])
    with h show ?thesis by simp
  qed
  from f p l
  show "\<exists>rendered.
            findings (Number_toString env) cs = Inr rendered
            \<and> fst (postReviewSummary env owner rn pn (JStr s) cs)
                = [CreateReview owner rn pn (js ''COMMENT'')
                     (js ''### '' @ [55358, 56598] @ js '' AI Code Review Assistant'' @ [10, 10]
                      @ s @ [10, 10] @ js ''#### Findings'' @ [10] @ rendered)]
            \<and> (cs = [] \<longrightarrow> rendered = js ''_No specific issues were detected. Nice work!_'')
            \<and> (cs \<noteq> []
                \<and> (\<forall>c\<in>set cs.
                      10 \<notin> set (stringValue (getProp c (js ''file'')))
                      \<and> 10 \<notin> set (stringValue (getProp c (js ''message'')))
                      \<and> 10 \<notin> set (numberToString (Number_toString env)
                                     (numberValue (getProp c (js ''line''))))) \<longrightarrow>
                js_split 10 rendered = map ?line cs)"
    by (intro exI [of _ ?rendered]) simp
next
  assume "n \<le> 9007199254740992"
  then show "decimalOf (numberToString (Number_toString env) (of_nat n)) n"
    by (rule decimalOf_printed)
qed

theorem review_body_renders_findings_witness:
  "fst (postReviewSummary exampleEnv (js ''acme'') (js ''widgets'') 42 (JStr (js ''Looks fine''))
          [exampleFinding])
   = [CreateReview (js ''acme'') (js ''widgets'') 42 (js ''COMMENT'') exampleReviewBody]
   \<and> js_split 10 (js ''- (**warning**) `a.ts:3` '' @ [8211] @ js '' unused var'')
     = [js ''- (**warning**) `a.ts:3` '' @ [8211] @ js '' unused var'']
   \<and> decimalOf (js ''3'') 3"
proof -
  have wf: "\<forall>c\<in>set [exampleFinding]. spec_well_formed_finding c"
    by (simp add: example_well_formed)
  note inst = review_body_renders_findings
                [OF wf, where env = exampleEnv and owner = "js ''acme''" and rn = "js ''widgets''"
                   and pn = 42 and s = "js ''Looks fine''" and n = 3]
  have p: "getProp exampleFinding (js ''severity'') = Some (JStr (js ''warning''))"
    "getProp exampleFinding (js ''file'') = Some (JStr (js ''a.ts''))"
    "getProp exampleFinding (js ''line'') = Some (JNum 3)"
    "getProp exampleFinding (js ''message'') = Some (JStr (js ''unused var''))"
    by (simp_all add: exampleFinding_def)
  from inst [THEN conjunct1] obtain rendered where
    f: "findings (Number_toString exampleEnv) [exampleFinding] = Inr rendered"
    and c: "fst (postReviewSummary exampleEnv (js ''acme'') (js ''widgets'') 42
                   (JStr (js ''Looks fine'')) [exampleFinding])
            = [CreateReview (js ''acme'') (js ''widgets'') 42 (js ''COMMENT'')
                 (js ''### '' @ [55358, 56598] @ js '' AI Code Review Assistant'' @ [10, 10]
                  @ js ''Looks fine'' @ [10, 10] @ js ''#### Findings'' @ [10] @ rendered)]"
    and l: "[exampleFinding] \<noteq> []
            \<and> (\<forall>c\<in>set [exampleFinding].
                  10 \<notin> set (stringValue (getProp c (js ''file'')))
                  \<and> 10 \<notin> set (stringValue (getProp c (js ''message'')))
                  \<and> 10 \<notin> set (numberToString (Number_toString exampleEnv)
                                 (numberValue (getProp c (js ''line''))))) \<longrightarrow>
            js_split 10 rendered
              = map (\<lambda>c. js ''- (**'' @ stringValue (getProp c (js ''severity'')) @ js ''**) `''
                            @ stringValue (getProp c (js ''file'')) @ js '':''
                            @ numberToString (Number_toString exampleEnv)
                                (numberValue (getProp c (js ''line'')))
                            @ js ''` '' @ [8211] @ js '' ''
                            @ stringValue (getProp c (js ''message''))) [exampleFinding]"
    by blast
  from f have r: "rendered = js ''- (**warning**) `a.ts:3` '' @ [8211] @ js '' unused var''"
    by (simp add: findings_def example_finding_line)
  have h: "[exampleFinding] \<noteq> []
            \<and> (\<forall>c\<in>set [exampleFinding].
                  10 \<notin> set (stringValue (getProp c (js ''file'')))
                  \<and> 10 \<notin> set (stringValue (getProp c (js ''message'')))
                  \<and> 10 \<notin> set (numberToString (Number_toString exampleEnv)
                                 (numberValue (getProp c (js ''line'')))))"
    by (simp add: p stringValue_def numberValue_def print_3) (simp add: js_def)
  from l [rule_format, OF h]
  have 1: "js_split 10 (js ''- (**warning**) `a.ts:3` '' @ [8211] @ js '' unused var'')
           = [js ''- (**warning**) `a.ts:3` '' @ [8211] @ js '' unused var'']"
    unfolding r by (simp add: p stringValue_def numberValue_def print_3) (simp add: js_def)
  from c have 2: "fst (postReviewSummary exampleEnv (js ''acme'') (js ''widgets'') 42
                         (JStr (js ''Looks fine'')) [exampleFinding])
                  = [CreateReview (js ''acme'') (js ''widgets'') 42 (js ''COMMENT'')
                       exampleReviewBody]"
    unfolding r by (simp add: exampleReviewBody_def)
  have "(3 :: nat) \<le> 9007199254740992" by simp
  from inst [THEN conjunct2, rule_format, OF this]
  have 3: "decimalOf (js ''3'') 3"
    by (simp add: print_3)
  from 1 2 3 show ?thesis by simp
qed

section \<open>Properties of the signature verification\<close>

lemma hexDigit_inj: "hexDigit a = hexDigit b \<Longrightarrow> a = b"
  by (auto simp: hexDigit_def split: if_splits)

lemma hexDigit_ascii: "n < 16 \<Longrightarrow> hexDigit n < 128"
  by (simp add: hexDigit_def)

lemma unat_byte: "unat (b :: byte) < 256"
  using unsigned_less [of b, where ?'a = nat] by simp

lemma hex_Cons: "hex (b # bs) = hexDigit (unat b div 16) # hexDigit (unat b mod 16) # hex bs"
  by (simp add: hex_def)

lemma hex_Nil: "hex [] = []"
  by (simp add: hex_def)

lemma hex_ascii: "c \<in> set (hex bs) \<Longrightarrow> c < 128"
proof (induction bs)
  case Nil
  then show ?case by (simp add: hex_Nil)
next
  case (Cons b bs)
  have "unat b div 16 < 16" using unat_byte [of b] by simp
  moreover have "unat b mod 16 < 16" by simp
  ultimately show ?case
    using Cons hexDigit_ascii by (auto simp: hex_Cons)
qed

lemma hex_inj: "hex a = hex b \<Longrightarrow> a = b"
proof (induction a arbitrary: b)
  case Nil
  then show ?case by (cases b) (simp_all add: hex_Nil hex_Cons)
next
  case (Cons x xs)
  then obtain y ys where b: "b = y # ys"
    by (cases b) (simp_all add: hex_Nil hex_Cons)
  from Cons.prems have d: "unat x div 16 = unat y div 16" and m: "unat x mod 16 = unat y mod 16"
    and r: "hex xs = hex ys"
    by (auto simp: b hex_Cons dest: hexDigit_inj)
  have "unat x = unat y"
    using d m by (metis div_mult_mod_eq)
  then have "x = y" by (simp add: word_unat_eq_iff)
  with Cons.IH [OF r] b show ?case by simp
qed

lemma utf8_nonempty: "utf8 (c # cs) \<noteq> []"
  by (simp add: Let_def split: list.splits)

lemma unat_of_nat_byte: "n < 256 \<Longrightarrow> unat (of_nat n :: byte) = n"
  by (simp add: unat_of_nat)

lemma utf8_first_byte:
  assumes "128 \<le> c"
  shows "\<exists>b bs. utf8 (c # cs) = b # bs \<and> 128 \<le> unat b"
proof -
  have a: "c < 2048 \<Longrightarrow> 128 \<le> unat (of_nat (192 + c div 64) :: byte)"
    by (subst unat_of_nat_byte) auto
  have b: "128 \<le> unat (of_nat (224 + c div 4096 mod 16) :: byte)"
    by (subst unat_of_nat_byte) (auto intro: less_le_trans [OF add_strict_left_mono [OF mod_less_divisor]])
  have d: "128 \<le> unat (of_nat (240 + k mod 8) :: byte)" for k
    by (subst unat_of_nat_byte) (auto intro: less_le_trans [OF add_strict_left_mono [OF mod_less_divisor]])
  have e: "128 \<le> unat (239 :: byte)" by simp
  show ?thesis
    using assms a b d e by (auto simp: Let_def split: list.splits)
qed

lemma utf8_ascii_eq:
  "\<forall>x\<in>set e. x < 128 \<Longrightarrow> utf8 h = utf8 e \<Longrightarrow> h = e"
proof (induction e arbitrary: h)
  case Nil
  then show ?case using utf8_nonempty by (cases h) auto
next
  case (Cons x xs)
  from Cons.prems have x: "x < 128" by simp
  from Cons.prems(2) x obtain c cs where h: "h = c # cs"
    by (cases h) auto
  show ?case
  proof (cases "c < 128")
    case True
    with Cons.prems(2) x have "(of_nat c :: byte) = of_nat x" and r: "utf8 cs = utf8 xs"
      by (simp_all add: h)
    then have "unat (of_nat c :: byte) = unat (of_nat x :: byte)" by simp
    with True x have "c = x" by (simp add: unat_of_nat_byte)
    moreover from Cons.IH [OF _ r] Cons.prems(1) have "cs = xs" by simp
    ultimately show ?thesis by (simp add: h)
  next
    case False
    then obtain b bs where "utf8 (c # cs) = b # bs" "128 \<le> unat b"
      using utf8_first_byte [of c cs] by auto
    with Cons.prems(2) x have "128 \<le> unat (of_nat x :: byte)"
      by (simp add: h)
    with x show ?thesis by (simp add: unat_of_nat_byte)
  qed
qed

lemma expected_ascii: "x \<in> set (expectedSignature hmac secret raw) \<Longrightarrow> x < 128"
  using hex_ascii by (auto simp: expectedSignature_def js_def)

lemma expected_nonempty: "expectedSignature hmac secret raw \<noteq> []"
  by (simp add: expectedSignature_def js_def)

lemma expected_inj:
  "expectedSignature hmac secret raw = expectedSignature hmac secret raw'
   \<longleftrightarrow> hmac secret raw = hmac secret raw'"
  using hex_inj by (auto simp: expectedSignature_def)

lemma verify_configured:
  assumes "githubWebhookSecret config = Some secret" and "secret \<noteq> []"
      and "rawBody req = Some raw"
  shows "verifyGitHubSignature hmac config req =
    (case x_hub_signature_256 req of
       Some (HString h) \<Rightarrow>
         if h = [] then
           ([Log Err (js ''Missing or invalid x-hub-signature-256 header'')],
            unauthorized (js ''Missing or invalid signature header'') (reqId req))
         else if length (utf8 (expectedSignature hmac secret raw)) \<noteq> length (utf8 h) then
           ([Log Debug (js ''Verifying GitHub webhook signature''),
             Log Err (js ''Signature length mismatch'')],
            unauthorized (js ''Invalid signature'') (reqId req))
         else if utf8 (expectedSignature hmac secret raw) \<noteq> utf8 h then
           ([Log Debug (js ''Verifying GitHub webhook signature''),
             TimingSafeEqual (utf8 (expectedSignature hmac secret raw)) (utf8 h),
             Log Err (js ''GitHub webhook signature verification failed'')],
            unauthorized (js ''Invalid signature'') (reqId req))
         else
           ([Log Debug (js ''Verifying GitHub webhook signature''),
             TimingSafeEqual (utf8 (expectedSignature hmac secret raw)) (utf8 h),
             Log Debug (js ''GitHub webhook signature verified successfully'')],
            Next)
     | _ \<Rightarrow>
         ([Log Err (js ''Missing or invalid x-hub-signature-256 header'')],
          unauthorized (js ''Missing or invalid signature header'') (reqId req)))"
  using assms
  by (simp add: verifyGitHubSignature_def expectedSignature_def timingSafeEqual_def Let_def
           split: option.splits header.splits)

lemma unauthorized_not_Next: "unauthorized msg rid \<noteq> Next"
  by (simp add: unauthorized_def)

lemma unauthorized_eq:
  "unauthorized msg rid
   = Responded \<lparr> status = 401, payload = ErrorResponse AUTHENTICATION_ERROR msg None rid \<rparr>"
  by (simp add: unauthorized_def createErrorResponse_def)

lemma verify_accepts_iff:
  assumes "githubWebhookSecret config = Some secret" and "secret \<noteq> []"
      and "rawBody req = Some raw"
  shows "snd (verifyGitHubSignature hmac config req) = Next
         \<longleftrightarrow> x_hub_signature_256 req = Some (HString (expectedSignature hmac secret raw))"
proof
  assume n: "snd (verifyGitHubSignature hmac config req) = Next"
  then obtain h where h: "x_hub_signature_256 req = Some (HString h)"
    and u: "utf8 (expectedSignature hmac secret raw) = utf8 h"
    unfolding verify_configured [OF assms]
    by (auto simp: unauthorized_not_Next split: option.splits header.splits if_splits)
  from utf8_ascii_eq [OF _ u [symmetric]] expected_ascii have "h = expectedSignature hmac secret raw"
    by blast
  with h show "x_hub_signature_256 req = Some (HString (expectedSignature hmac secret raw))"
    by simp
next
  assume "x_hub_signature_256 req = Some (HString (expectedSignature hmac secret raw))"
  then show "snd (verifyGitHubSignature hmac config req) = Next"
    unfolding verify_configured [OF assms] by (simp add: expected_nonempty)
qed

lemma verify_rejects:
  assumes "githubWebhookSecret config = Some secret" and "secret \<noteq> []"
      and "rawBody req = Some raw"
      and "x_hub_signature_256 req \<noteq> Some (HString (expectedSignature hmac secret raw))"
  shows "\<exists>msg. snd (verifyGitHubSignature hmac config req)
               = Responded \<lparr> status = 401,
                             payload = ErrorResponse AUTHENTICATION_ERROR msg None (reqId req) \<rparr>"
proof -
  have "snd (verifyGitHubSignature hmac config req) \<noteq> Next"
    using verify_accepts_iff [OF assms(1-3)] assms(4) by simp
  then show ?thesis
    unfolding verify_configured [OF assms(1-3)]
    by (auto simp: unauthorized_eq split: option.splits header.splits if_splits)
qed

lemma example_expected:
  "expectedSignature exampleHmac (js ''s'') [123, 125] = js ''sha256=737b7d''"
  by (simp add: expectedSignature_def hex_def exampleHmac_def hexDigit_def js_def)

lemma example_expected_flipped:
  "list_update (expectedSignature exampleHmac (js ''s'') [123, 125]) 7 56 = js ''sha256=837b7d''"
  by (simp add: example_expected) (simp add: js_def)

text \<open>
  C2. With a non-empty secret configured and the raw body captured, verification
  succeeds if and only if the header \<open>x-hub-signature-256\<close> is the string \<open>sha256=\<close> followed by the
  lowercase hexadecimal HMAC of the raw body under the secret; every other header is
  answered with 401 and \<open>AUTHENTICATION_ERROR\<close>. So changing one code unit of a valid
  signature fails, and changing one byte of the body fails whenever the HMAC of the
  changed body differs from that of the original, which is the property of HMAC-SHA256
  the claim relies on. A header that is absent or no string, and a header whose encoding
  has another length than the expected value, are each rejected in a branch of their own
  that makes no timing-safe comparison.
\<close>

theorem signature_verification_exact:
  assumes "githubWebhookSecret config = Some secret" and "secret \<noteq> []"
      and "rawBody req = Some raw"
  shows "(snd (verifyGitHubSignature hmac config req) = Next
            \<longleftrightarrow> x_hub_signature_256 req = Some (HString (expectedSignature hmac secret raw)))
       \<and> (x_hub_signature_256 req \<noteq> Some (HString (expectedSignature hmac secret raw)) \<longrightarrow>
            (\<exists>msg. snd (verifyGitHubSignature hmac config req)
                    = Responded \<lparr> status = 401,
                                  payload = ErrorResponse AUTHENTICATION_ERROR msg None
                                              (reqId req) \<rparr>))
       \<and> (i < length (expectedSignature hmac secret raw)
            \<and> c \<noteq> expectedSignature hmac secret raw ! i \<longrightarrow>
            (\<exists>msg. snd (verifyGitHubSignature hmac config
                           (req \<lparr> x_hub_signature_256 :=
                                    Some (HString ((expectedSignature hmac secret raw) [i := c])) \<rparr>))
                    = Responded \<lparr> status = 401,
                                  payload = ErrorResponse AUTHENTICATION_ERROR msg None
                                              (reqId req) \<rparr>))
       \<and> (x_hub_signature_256 req = Some (HString (expectedSignature hmac secret raw))
            \<and> j < length raw \<and> b \<noteq> raw ! j
            \<and> hmac secret (raw [j := b]) \<noteq> hmac secret raw \<longrightarrow>
            (\<exists>msg. snd (verifyGitHubSignature hmac config (req \<lparr> rawBody := Some (raw [j := b]) \<rparr>))
                    = Responded \<lparr> status = 401,
                                  payload = ErrorResponse AUTHENTICATION_ERROR msg None
                                              (reqId req) \<rparr>))
       \<and> ((\<forall>h. x_hub_signature_256 req \<noteq> Some (HString h)) \<longrightarrow>
            verifyGitHubSignature hmac config req
              = ([Log Err (js ''Missing or invalid x-hub-signature-256 header'')],
                 Responded \<lparr> status = 401,
                             payload = ErrorResponse AUTHENTICATION_ERROR
                                         (js ''Missing or invalid signature header'') None
                                         (reqId req) \<rparr>))
       \<and> (x_hub_signature_256 req = Some (HString h) \<and> h \<noteq> []
            \<and> length (utf8 h) \<noteq> length (utf8 (expectedSignature hmac secret raw)) \<longrightarrow>
            verifyGitHubSignature hmac config req
              = ([Log Debug (js ''Verifying GitHub webhook signature''),
                  Log Err (js ''Signature length mismatch'')],
                 Responded \<lparr> status = 401,
                             payload = ErrorResponse AUTHENTICATION_ERROR
                                         (js ''Invalid signature'') None (reqId req) \<rparr>))"
proof (intro conjI impI)
  show "snd (verifyGitHubSignature hmac config req) = Next
          \<longleftrightarrow> x_hub_signature_256 req = Some (HString (expectedSignature hmac secret raw))"
    by (rule verify_accepts_iff [OF assms])
next
  assume "x_hub_signature_256 req \<noteq> Some (HString (expectedSignature hmac secret raw))"
  then show "\<exists>msg. snd (verifyGitHubSignature hmac config req)
                    = Responded \<lparr> status = 401,
                                  payload = ErrorResponse AUTHENTICATION_ERROR msg None
                                              (reqId req) \<rparr>"
    by (rule verify_rejects [OF assms])
next
  let ?E = "expectedSignature hmac secret raw"
  let ?req = "req \<lparr> x_hub_signature_256 := Some (HString (?E [i := c])) \<rparr>"
  assume a: "i < length ?E \<and> c \<noteq> ?E ! i"
  then have "?E [i := c] ! i \<noteq> ?E ! i" by simp
  then have "?E [i := c] \<noteq> ?E" by metis
  then have "x_hub_signature_256 ?req \<noteq> Some (HString ?E)" by simp
  from verify_rejects [where req = ?req, OF _ assms(2) _ this] assms(1,3)
  show "\<exists>msg. snd (verifyGitHubSignature hmac config ?req)
              = Responded \<lparr> status = 401,
                            payload = ErrorResponse AUTHENTICATION_ERROR msg None (reqId req) \<rparr>"
    by simp
next
  let ?E = "expectedSignature hmac secret raw"
  let ?req = "req \<lparr> rawBody := Some (raw [j := b]) \<rparr>"
  assume a: "x_hub_signature_256 req = Some (HString ?E) \<and> j < length raw \<and> b \<noteq> raw ! j
             \<and> hmac secret (raw [j := b]) \<noteq> hmac secret raw"
  then have "?E \<noteq> expectedSignature hmac secret (raw [j := b])"
    by (auto simp: expected_inj)
  with a have "x_hub_signature_256 ?req \<noteq> Some (HString (expectedSignature hmac secret (raw [j := b])))"
    by simp
  from verify_rejects [where req = ?req and raw = "raw [j := b]", OF _ assms(2) _ this] assms(1)
  show "\<exists>msg. snd (verifyGitHubSignature hmac config ?req)
              = Responded \<lparr> status = 401,
                            payload = ErrorResponse AUTHENTICATION_ERROR msg None (reqId req) \<rparr>"
    by simp
next
  assume "\<forall>h. x_hub_signature_256 req \<noteq> Some (HString h)"
  then show "verifyGitHubSignature hmac config req
              = ([Log Err (js ''Missing or invalid x-hub-signature-256 header'')],
                 Responded \<lparr> status = 401,
                             payload = ErrorResponse AUTHENTICATION_ERROR
                                         (js ''Missing or invalid signature header'') None
                                         (reqId req) \<rparr>)"
    unfolding verify_configured [OF assms]
    by (auto simp: unauthorized_eq split: option.splits header.splits)
next
  assume "x_hub_signature_256 req = Some (HString h) \<and> h \<noteq> []
            \<and> length (utf8 h) \<noteq> length (utf8 (expectedSignature hmac secret raw))"
  then show "verifyGitHubSignature hmac config req
              = ([Log Debug (js ''Verifying GitHub webhook signature''),
                  Log Err (js ''Signature length mismatch'')],
                 Responded \<lparr> status = 401,
                             payload = ErrorResponse AUTHENTICATION_ERROR
                                         (js ''Invalid signature'') None (reqId req) \<rparr>)"
    unfolding verify_configured [OF assms]
    by (auto simp: unauthorized_eq)
qed

theorem signature_verification_exact_witness:
  "snd (verifyGitHubSignature exampleHmac exampleWebhookConfig
          (exampleWebhook (js ''opened'') (js ''acme/widgets''))) = Next
   \<and> (\<exists>msg. snd (verifyGitHubSignature exampleHmac exampleWebhookConfig
                   ((exampleWebhook (js ''opened'') (js ''acme/widgets''))
                      \<lparr> x_hub_signature_256 := Some (HString (js ''sha256=837b7d'')) \<rparr>))
             = Responded \<lparr> status = 401,
                           payload = ErrorResponse AUTHENTICATION_ERROR msg None
                                       (Some (js ''r1'')) \<rparr>)
   \<and> (\<exists>msg. snd (verifyGitHubSignature exampleHmac exampleWebhookConfig
                   ((exampleWebhook (js ''opened'') (js ''acme/widgets''))
                      \<lparr> rawBody := Some [124, 125] \<rparr>))
             = Responded \<lparr> status = 401,
                           payload = ErrorResponse AUTHENTICATION_ERROR msg None
                                       (Some (js ''r1'')) \<rparr>)
   \<and> verifyGitHubSignature exampleHmac exampleWebhookConfig
        ((exampleWebhook (js ''opened'') (js ''acme/widgets'')) \<lparr> x_hub_signature_256 := None \<rparr>)
       = ([Log Err (js ''Missing or invalid x-hub-signature-256 header'')],
          Responded \<lparr> status = 401,
                      payload = ErrorResponse AUTHENTICATION_ERROR
                                  (js ''Missing or invalid signature header'') None
                                  (Some (js ''r1'')) \<rparr>)
   \<and> verifyGitHubSignature exampleHmac exampleWebhookConfig
        ((exampleWebhook (js ''opened'') (js ''acme/widgets''))
           \<lparr> x_hub_signature_256 := Some (HString (js ''sha256='')) \<rparr>)
       = ([Log Debug (js ''Verifying GitHub webhook signature''),
           Log Err (js ''Signature length mismatch'')],
          Responded \<lparr> status = 401,
                      payload = ErrorResponse AUTHENTICATION_ERROR (js ''Invalid signature'') None
                                  (Some (js ''r1'')) \<rparr>)"
proof -
  let ?req = "exampleWebhook (js ''opened'') (js ''acme/widgets'')"
  have s: "githubWebhookSecret exampleWebhookConfig = Some (js ''s'')" "js ''s'' \<noteq> []"
    by (simp_all add: exampleWebhookConfig_def)
  have r: "rawBody req = Some [123, 125]"
    if "req = ?req \<or> req = ?req \<lparr> x_hub_signature_256 := None \<rparr>
        \<or> req = ?req \<lparr> x_hub_signature_256 := Some (HString (js ''sha256='')) \<rparr>" for req
    using that by (auto simp: exampleWebhook_def)
  have sig: "x_hub_signature_256 ?req
             = Some (HString (expectedSignature exampleHmac (js ''s'') [123, 125]))"
    by (simp add: exampleWebhook_def example_expected)
  have rid: "reqId ?req = Some (js ''r1'')"
    by (simp add: exampleWebhook_def)
  note inst = signature_verification_exact [where hmac = exampleHmac, OF s]
  have 1: "snd (verifyGitHubSignature exampleHmac exampleWebhookConfig ?req) = Next"
    using inst [where req = ?req, OF r, THEN conjunct1] sig by simp
  have 2: "\<exists>msg. snd (verifyGitHubSignature exampleHmac exampleWebhookConfig
                   (?req \<lparr> x_hub_signature_256 := Some (HString (js ''sha256=837b7d'')) \<rparr>))
             = Responded \<lparr> status = 401,
                           payload = ErrorResponse AUTHENTICATION_ERROR msg None
                                       (Some (js ''r1'')) \<rparr>"
  proof -
    have "7 < length (expectedSignature exampleHmac (js ''s'') [123, 125])
          \<and> 56 \<noteq> expectedSignature exampleHmac (js ''s'') [123, 125] ! 7"
      by (simp add: example_expected) (simp add: js_def)
    from inst [where req = ?req, OF r, THEN conjunct2, THEN conjunct2, THEN conjunct1,
               rule_format, OF _ this]
    show ?thesis by (simp add: example_expected_flipped rid)
  qed
  have 3: "\<exists>msg. snd (verifyGitHubSignature exampleHmac exampleWebhookConfig
                   (?req \<lparr> rawBody := Some [124, 125] \<rparr>))
             = Responded \<lparr> status = 401,
                           payload = ErrorResponse AUTHENTICATION_ERROR msg None
                                       (Some (js ''r1'')) \<rparr>"
  proof -
    have "x_hub_signature_256 ?req
            = Some (HString (expectedSignature exampleHmac (js ''s'') [123, 125]))
          \<and> 0 < length [123, 125 :: byte] \<and> (124 :: byte) \<noteq> [123, 125] ! 0
          \<and> exampleHmac (js ''s'') (list_update [123, 125] 0 124) \<noteq> exampleHmac (js ''s'') [123, 125]"
      by (simp add: sig exampleHmac_def)
    from inst [where req = ?req, OF r, THEN conjunct2, THEN conjunct2, THEN conjunct2,
               THEN conjunct1, rule_format, OF _ this]
    show ?thesis by (simp add: rid)
  qed
  have 4: "verifyGitHubSignature exampleHmac exampleWebhookConfig
             (?req \<lparr> x_hub_signature_256 := None \<rparr>)
           = ([Log Err (js ''Missing or invalid x-hub-signature-256 header'')],
              Responded \<lparr> status = 401,
                          payload = ErrorResponse AUTHENTICATION_ERROR
                                      (js ''Missing or invalid signature header'') None
                                      (Some (js ''r1'')) \<rparr>)"
    using inst [where req = "?req \<lparr> x_hub_signature_256 := None \<rparr>", OF r,
                THEN conjunct2, THEN conjunct2, THEN conjunct2, THEN conjunct2, THEN conjunct1]
    by (simp add: rid)
  have 5: "verifyGitHubSignature exampleHmac exampleWebhookConfig
             (?req \<lparr> x_hub_signature_256 := Some (HString (js ''sha256='')) \<rparr>)
           = ([Log Debug (js ''Verifying GitHub webhook signature''),
               Log Err (js ''Signature length mismatch'')],
              Responded \<lparr> status = 401,
                          payload = ErrorResponse AUTHENTICATION_ERROR (js ''Invalid signature'')
                                      None (Some (js ''r1'')) \<rparr>)"
  proof -
    have "length (utf8 (js ''sha256=''))
          \<noteq> length (utf8 (expectedSignature exampleHmac (js ''s'') [123, 125]))"
      by (simp add: example_expected) (simp add: js_def)
    with inst [where req = "?req \<lparr> x_hub_signature_256 := Some (HString (js ''sha256='')) \<rparr>"
               and h = "js ''sha256=''",
               OF r, THEN conjunct2, THEN conjunct2, THEN conjunct2, THEN conjunct2, THEN conjunct2]
    show ?thesis by (simp add: rid)
  qed
  from 1 2 3 4 5 show ?thesis by blast
qed

end
